theory Spec2Isabelle
  imports Complex_Main
begin

section \<open>Affine-form QP interior-point driver (Elemental, \<^verbatim>\<open>QP/affine/IPM/IPM.cpp\<close>)\<close>

text \<open>
  The template parameter \<^verbatim>\<open>Real\<close> of the source is read as the field of real numbers
  (\<^typ>\<open>real\<close>): every comparison and every arithmetic operation is the exact one.
  The division of \<^typ>\<open>real\<close> is total, with \<open>x / 0 = 0\<close>, where a floating-point
  quotient by zero is an infinity or not a number: the driver divides by the degree
  \<open>k\<close> and by \<^verbatim>\<open>maxStepRatio\<close>, and the model says what the source computes only where
  these are not zero; every other divisor of the driver is positive.
  Column vectors (\<^verbatim>\<open>Matrix<Real>\<close> of width one) are lists of reals.  A dense matrix
  keeps its two dimensions next to its rows, since \<^verbatim>\<open>A.Width()\<close> is read even when
  \<^verbatim>\<open>A\<close> has no row.
\<close>

type_synonym vec = "real list"

record matrix =
  Height :: nat
  Width :: nat
  Entries :: "real list list"

subsection \<open>Gap measures (lines 15--39)\<close>

definition RelativeComplementarityGap :: "real \<Rightarrow> real \<Rightarrow> real \<Rightarrow> real" where
  "RelativeComplementarityGap primalObj dualObj dualityProduct =
     (if primalObj < 0 then dualityProduct / - primalObj
      else if dualObj > 0 then dualityProduct / dualObj
      else 2)"

definition RelativeObjectiveGap :: "real \<Rightarrow> real \<Rightarrow> real \<Rightarrow> real" where
  "RelativeObjectiveGap primalObj dualObj dualityProduct =
     \<bar>primalObj - dualObj\<bar> / (max \<bar>primalObj\<bar> \<bar>dualObj\<bar> + 1)"

subsection \<open>Vector and matrix primitives\<close>

text \<open>
  Modelled from the spec: the BLAS-level primitives (\<^verbatim>\<open>Dot\<close>, \<^verbatim>\<open>Nrm2\<close>, \<^verbatim>\<open>Axpy\<close>,
  \<^verbatim>\<open>Shift\<close>, \<^verbatim>\<open>DiagonalScale\<close>, \<^verbatim>\<open>DiagonalSolve\<close>, \<^verbatim>\<open>Gemv\<close>, \<^verbatim>\<open>Hemv\<close>,
  \<^verbatim>\<open>Zeros\<close>, \<^verbatim>\<open>Ones\<close>) are called by the driver but defined elsewhere in the
  library.  They are given their usual meaning, the one the spec's residual formulas
  use.  The library rejects operands whose dimensions do not conform; the model is
  meant for conforming operands only.
\<close>

definition Zeros :: "nat \<Rightarrow> vec" where
  "Zeros n = replicate n 0"

definition Ones :: "nat \<Rightarrow> vec" where
  "Ones n = replicate n 1"

definition Dot :: "vec \<Rightarrow> vec \<Rightarrow> real" where
  "Dot u v = sum_list (map2 (*) u v)"

definition Nrm2 :: "vec \<Rightarrow> real" where
  "Nrm2 v = sqrt (Dot v v)"

definition Scale :: "real \<Rightarrow> vec \<Rightarrow> vec" where
  \<comment> \<open>\<^verbatim>\<open>v *= alpha\<close>\<close>
  "Scale alpha v = map (\<lambda>vi. vi * alpha) v"

definition Add :: "vec \<Rightarrow> vec \<Rightarrow> vec" where
  \<comment> \<open>\<^verbatim>\<open>v += u\<close>\<close>
  "Add v u = map2 (+) v u"

definition Axpy :: "real \<Rightarrow> vec \<Rightarrow> vec \<Rightarrow> vec" where
  \<comment> \<open>\<^verbatim>\<open>Axpy( alpha, u, v )\<close>: \<open>v := alpha u + v\<close>\<close>
  "Axpy alpha u v = map2 (\<lambda>ui vi. alpha * ui + vi) u v"

definition Shift :: "vec \<Rightarrow> real \<Rightarrow> vec" where
  "Shift v alpha = map (\<lambda>vi. vi + alpha) v"

definition DiagonalScale :: "vec \<Rightarrow> vec \<Rightarrow> vec" where
  \<comment> \<open>\<^verbatim>\<open>DiagonalScale( LEFT, NORMAL, d, v )\<close>: \<open>v := diag(d) v\<close>\<close>
  "DiagonalScale d v = map2 (*) d v"

definition DiagonalSolve :: "vec \<Rightarrow> vec \<Rightarrow> vec" where
  \<comment> \<open>\<^verbatim>\<open>DiagonalSolve( LEFT, NORMAL, d, v )\<close>: \<open>v := diag(d)\<^sup>-\<^sup>1 v\<close>\<close>
  "DiagonalSolve d v = map2 (\<lambda>di vi. vi / di) d v"

definition DiagonalSolveLeft :: "vec \<Rightarrow> matrix \<Rightarrow> matrix" where
  \<comment> \<open>\<^verbatim>\<open>DiagonalSolve( LEFT, NORMAL, d, M )\<close>: row \<open>i\<close> divided by \<open>d\<^sub>i\<close>\<close>
  "DiagonalSolveLeft d M = M\<lparr>Entries := map2 (\<lambda>di row. map (\<lambda>e. e / di) row) d (Entries M)\<rparr>"

definition DiagonalSolveRight :: "vec \<Rightarrow> matrix \<Rightarrow> matrix" where
  \<comment> \<open>\<^verbatim>\<open>DiagonalSolve( RIGHT, NORMAL, d, M )\<close>: column \<open>j\<close> divided by \<open>d\<^sub>j\<close>\<close>
  "DiagonalSolveRight d M = M\<lparr>Entries := map (\<lambda>row. map2 (\<lambda>dj e. e / dj) d row) (Entries M)\<rparr>"

datatype orientation = NORMAL | TRANSPOSE

fun Gemv :: "orientation \<Rightarrow> real \<Rightarrow> matrix \<Rightarrow> vec \<Rightarrow> real \<Rightarrow> vec \<Rightarrow> vec" where
  "Gemv NORMAL alpha M u beta v =
     map (\<lambda>i. alpha * (\<Sum>j\<leftarrow>[0..<length u]. Entries M ! i ! j * u ! j) + beta * v ! i)
       [0..<length v]"
| "Gemv TRANSPOSE alpha M u beta v =
     map (\<lambda>j. alpha * (\<Sum>i\<leftarrow>[0..<length u]. Entries M ! i ! j * u ! i) + beta * v ! j)
       [0..<length v]"

definition Hemv :: "real \<Rightarrow> matrix \<Rightarrow> vec \<Rightarrow> real \<Rightarrow> vec \<Rightarrow> vec" where
  \<comment> \<open>\<^verbatim>\<open>Hemv( LOWER, alpha, M, u, beta, v )\<close>: only the lower triangle of \<open>M\<close> is read\<close>
  "Hemv alpha M u beta v =
     map (\<lambda>i. alpha * (\<Sum>j\<leftarrow>[0..<length u].
                  (if j \<le> i then Entries M ! i ! j else Entries M ! j ! i) * u ! j)
               + beta * v ! i)
       [0..<length v]"

text \<open>
  Modelled from the spec: \<^verbatim>\<open>pos_orth::NumOutside\<close> and \<^verbatim>\<open>pos_orth::MaxStep\<close> are not
  in the given sources.  The spec has the first count the nonpositive entries, and the
  second return the largest step, at most the given upper bound, that keeps
  \<open>v + \<alpha> \<Delta>v\<close> in the orthant: the bound is lowered to \<open>- v\<^sub>i / \<Delta>v\<^sub>i\<close> at every index
  whose direction entry is negative.
\<close>

definition NumOutside :: "vec \<Rightarrow> nat" where
  "NumOutside v = length (filter (\<lambda>vi. vi \<le> 0) v)"

fun MaxStep :: "vec \<Rightarrow> vec \<Rightarrow> real \<Rightarrow> real" where
  "MaxStep (vi # v) (dvi # dv) upperBound =
     MaxStep v dv (if dvi < 0 then min upperBound (- vi / dvi) else upperBound)"
| "MaxStep _ _ upperBound = upperBound"

subsection \<open>Problem data, iterates, control structure\<close>

record problem =
  pQ :: matrix
  pA :: matrix
  pG :: matrix
  pb :: vec
  pc :: vec
  ph :: vec

record iterates =
  xvec :: vec
  yvec :: vec
  zvec :: vec
  svec :: vec

text \<open>
  The objects of a call: the six read-only arguments \<^verbatim>\<open>QPre, APre, GPre, bPre, cPre,
  hPre\<close> and the four in/out arguments \<^verbatim>\<open>x, y, z, s\<close>, taken to be ten distinct
  objects.
\<close>

record caller =
  pre :: problem
  its :: iterates

text \<open>
  The fields of \<^verbatim>\<open>IPMCtrl\<close> the drivers read.  The diagnostic switches
  (\<^verbatim>\<open>print\<close>, \<^verbatim>\<open>time\<close>, \<^verbatim>\<open>checkResiduals\<close>) only produce output and are left out;
  \<^verbatim>\<open>maxIts\<close> is a signed \<^verbatim>\<open>Int\<close>.  The fields from \<^verbatim>\<open>xRegSmall\<close> on are read by the
  sparse drivers only.
\<close>

record RegSolveCtrl =
  relTol :: real
  maxRefineIts :: int
  progress :: bool

record IPMCtrl =
  primalInit :: bool
  dualInit :: bool
  standardInitShift :: bool
  outerEquil :: bool
  maxIts :: int
  infeasibilityTol :: real
  relativeObjectiveGapTol :: real
  relativeComplementarityGapTol :: real
  minDimacsDecreaseRatio :: real
  maxStepRatio :: real
  forceSameStep :: bool
  mehrotra :: bool
  centralityRule :: "real \<Rightarrow> real \<Rightarrow> real \<Rightarrow> real \<Rightarrow> real"
  xRegSmall :: real
  yRegSmall :: real
  zRegSmall :: real
  xRegLarge :: real
  yRegLarge :: real
  zRegLarge :: real
  twoStage :: bool
  twoNormKrylovBasisSize :: int
  solveCtrl :: RegSolveCtrl

text \<open>
  The collaborators of the dense driver that are defined elsewhere in the library and
  whose results no property below depends on are parameters: the equilibration
  (returning the scaled \<open>A\<close>, \<open>G\<close> and the three scalings), the initializer, the
  assembly of the KKT matrix and right-hand side, the \<open>LDL\<close> factorization and its
  solve (\<open>None\<close> when they throw), and the expansion of the reduced solution.
\<close>

record collaborators =
  StackedRuizEquil :: "matrix \<Rightarrow> matrix \<Rightarrow> matrix \<times> matrix \<times> vec \<times> vec \<times> vec"
  Initialize :: "problem \<Rightarrow> iterates \<Rightarrow> bool \<Rightarrow> bool \<Rightarrow> bool \<Rightarrow> iterates"
  KKT :: "matrix \<Rightarrow> matrix \<Rightarrow> matrix \<Rightarrow> vec \<Rightarrow> vec \<Rightarrow> matrix"
  KKTRHS :: "vec \<Rightarrow> vec \<Rightarrow> vec \<Rightarrow> vec \<Rightarrow> vec \<Rightarrow> vec"
  LDL :: "matrix \<Rightarrow> (matrix \<times> vec \<times> nat list) option"
  SolveAfter :: "matrix \<Rightarrow> vec \<Rightarrow> nat list \<Rightarrow> vec \<Rightarrow> vec option"
  ExpandSolution :: "nat \<Rightarrow> nat \<Rightarrow> vec \<Rightarrow> vec \<Rightarrow> vec \<Rightarrow> vec \<Rightarrow> vec \<times> vec \<times> vec \<times> vec"

subsection \<open>The dense driver (lines 89--422)\<close>

datatype error =
  LogicError nat nat
    \<comment> \<open>"\<open>n\<close> entries of s were nonpositive and \<open>n'\<close> entries of z were nonpositive"\<close>
  | IterationLimit int
    \<comment> \<open>"Maximum number of iterations (\<open>maxIts\<close>) exceeded without achieving tolerances"\<close>
  | CouldNotAchieveTolerances
    \<comment> \<open>"Could not achieve tolerances"\<close>
  | SolveException
    \<comment> \<open>an exception of the second \<^verbatim>\<open>ldl::SolveAfter\<close>, which no handler catches\<close>

datatype outcome = Returned | Raised error

datatype step = Break | Raise error | Continue

record scalings =
  dRowA :: vec
  dRowG :: vec
  dCol :: vec

text \<open>The driver's private copies and the constants computed before the loop.\<close>

record locals =
  prob :: problem
  dim_m :: nat
  dim_k :: nat
  dim_n :: nat
  bNrm2 :: real
  cNrm2 :: real
  hNrm2 :: real

text \<open>
  What one pass of the loop reads from the pass before: the iterates and the error
  measures.  The scratch matrices and vectors are assigned anew before each use.
\<close>

record loop_state =
  iter :: iterates
  infeasError :: real
  dimacsError :: real
  dimacsErrorOld :: real

record residuals =
  dualProd :: real
  mu :: real
  primObj :: real
  dualObj :: real
  relObjGap :: real
  relCompGap :: real
  maxRelGap :: real
  rb :: vec
  rbConv :: real
  rc :: vec
  rcConv :: real
  rh :: vec
  rhConv :: real

definition equilibrate ::
  "collaborators \<Rightarrow> IPMCtrl \<Rightarrow> problem \<Rightarrow> iterates \<Rightarrow> locals \<times> scalings \<times> iterates" where
  \<comment> \<open>lines 105--148: the copies, the dimensions, the scaling, the three norms\<close>
  "equilibrate E ctrl P0 it =
     (let A = pA P0; G = pG P0; b = pb P0; c = pc P0; h = ph P0; Q = pQ P0;
          m = Height A; k = Height G; n = Width A;
          (P, D, it') =
            (if outerEquil ctrl then
               (case StackedRuizEquil E A G of
                  (A', G', dRowA', dRowG', dCol') \<Rightarrow>
                    let b' = DiagonalSolve dRowA' b;
                        h' = DiagonalSolve dRowG' h;
                        c' = DiagonalSolve dCol' c;
                        Q' = DiagonalSolveRight dCol' (DiagonalSolveLeft dCol' Q);
                        it1 = (if primalInit ctrl
                               then it\<lparr>xvec := DiagonalScale dCol' (xvec it),
                                       svec := DiagonalSolve dRowG' (svec it)\<rparr>
                               else it);
                        it2 = (if dualInit ctrl
                               then it1\<lparr>yvec := DiagonalScale dRowA' (yvec it1),
                                        zvec := DiagonalScale dRowG' (zvec it1)\<rparr>
                               else it1)
                    in (\<lparr>pQ = Q', pA = A', pG = G', pb = b', pc = c', ph = h'\<rparr>,
                        \<lparr>dRowA = dRowA', dRowG = dRowG', dCol = dCol'\<rparr>, it2))
             else (\<lparr>pQ = Q, pA = A, pG = G, pb = b, pc = c, ph = h\<rparr>,
                   \<lparr>dRowA = Ones m, dRowG = Ones k, dCol = Ones n\<rparr>, it))
      in (\<lparr>prob = P, dim_m = m, dim_k = k, dim_n = n,
           bNrm2 = Nrm2 (pb P), cNrm2 = Nrm2 (pc P), hNrm2 = Nrm2 (ph P)\<rparr>, D, it'))"

definition unscale :: "scalings \<Rightarrow> iterates \<Rightarrow> iterates" where
  \<comment> \<open>lines 417--420\<close>
  "unscale D it =
     \<lparr>xvec = DiagonalSolve (dCol D) (xvec it),
      yvec = DiagonalSolve (dRowA D) (yvec it),
      zvec = DiagonalSolve (dRowG D) (zvec it),
      svec = DiagonalScale (dRowG D) (svec it)\<rparr>"

definition compute_residuals :: "locals \<Rightarrow> iterates \<Rightarrow> residuals" where
  \<comment> \<open>lines 187--230\<close>
  "compute_residuals L it =
     (let Q = pQ (prob L); A = pA (prob L); G = pG (prob L);
          b = pb (prob L); c = pc (prob L); h = ph (prob L);
          x = xvec it; y = yvec it; z = zvec it; s = svec it;
          dualProd' = Dot s z;
          mu' = dualProd' / real (dim_k L);
          d = Hemv 1 Q x 0 (Zeros (dim_n L));
          xTQx = Dot x d;
          primObj' = xTQx / 2 + Dot c x;
          dualObj' = - xTQx / 2 - Dot b y - Dot h z;
          relObjGap' = RelativeObjectiveGap primObj' dualObj' dualProd';
          relCompGap' = RelativeComplementarityGap primObj' dualObj' dualProd';
          maxRelGap' = max relObjGap' relCompGap';
          rb' = Gemv NORMAL 1 A x 1 (Scale (- 1) b);
          rbNrm2 = Nrm2 rb';
          rbConv' = rbNrm2 / (1 + bNrm2 L);
          rc' = Gemv TRANSPOSE 1 G z 1 (Gemv TRANSPOSE 1 A y 1 (Hemv 1 Q x 1 c));
          rcNrm2 = Nrm2 rc';
          rcConv' = rcNrm2 / (1 + cNrm2 L);
          rh' = Add (Gemv NORMAL 1 G x 1 (Scale (- 1) h)) s;
          rhNrm2 = Nrm2 rh';
          rhConv' = rhNrm2 / (1 + hNrm2 L)
      in \<lparr>dualProd = dualProd', mu = mu', primObj = primObj', dualObj = dualObj',
          relObjGap = relObjGap', relCompGap = relCompGap', maxRelGap = maxRelGap',
          rb = rb', rbConv = rbConv', rc = rc', rcConv = rcConv',
          rh = rh', rhConv = rhConv'\<rparr>)"

definition affine_rmu :: "vec \<Rightarrow> vec \<Rightarrow> vec" where
  \<comment> \<open>lines 287--288: \<^verbatim>\<open>rmu = z; DiagonalScale( LEFT, NORMAL, s, rmu )\<close>\<close>
  "affine_rmu s z = DiagonalScale s z"

definition affine_step_lengths :: "IPMCtrl \<Rightarrow> vec \<Rightarrow> vec \<Rightarrow> vec \<Rightarrow> vec \<Rightarrow> real \<times> real" where
  \<comment> \<open>lines 346--349\<close>
  "affine_step_lengths ctrl s dsAff z dzAff =
     (let alphaAffPri = MaxStep s dsAff 1;
          alphaAffDual = MaxStep z dzAff 1
      in if forceSameStep ctrl
         then (min alphaAffPri alphaAffDual, min alphaAffPri alphaAffDual)
         else (alphaAffPri, alphaAffDual))"

definition affine_mu :: "nat \<Rightarrow> vec \<Rightarrow> vec \<Rightarrow> vec \<Rightarrow> vec \<Rightarrow> real \<Rightarrow> real \<Rightarrow> real" where
  \<comment> \<open>lines 354--358, with \<^verbatim>\<open>ds\<close> and \<^verbatim>\<open>dz\<close> as temporaries\<close>
  "affine_mu degree s dsAff z dzAff alphaAffPri alphaAffDual =
     (let ds = Axpy alphaAffPri dsAff s;
          dz = Axpy alphaAffDual dzAff z
      in Dot ds dz / real degree)"

definition combined_rmu :: "IPMCtrl \<Rightarrow> real \<Rightarrow> real \<Rightarrow> vec \<Rightarrow> vec \<Rightarrow> vec \<Rightarrow> vec" where
  \<comment> \<open>lines 368--377\<close>
  "combined_rmu ctrl sigma mu' rmu dsAff dzAff =
     (let rmu1 = Shift rmu (- sigma * mu')
      in if mehrotra ctrl
         then (let dz = DiagonalScale dsAff dzAff in Add rmu1 dz)
         else rmu1)"

definition step_lengths :: "IPMCtrl \<Rightarrow> vec \<Rightarrow> vec \<Rightarrow> vec \<Rightarrow> vec \<Rightarrow> real \<times> real" where
  \<comment> \<open>lines 388--393\<close>
  "step_lengths ctrl s ds z dz =
     (let alphaPri = MaxStep s ds (1 / maxStepRatio ctrl);
          alphaDual = MaxStep z dz (1 / maxStepRatio ctrl);
          alphaPri' = min (maxStepRatio ctrl * alphaPri) 1;
          alphaDual' = min (maxStepRatio ctrl * alphaDual) 1
      in if forceSameStep ctrl
         then (min alphaPri' alphaDual', min alphaPri' alphaDual')
         else (alphaPri', alphaDual'))"

definition update_iterates ::
  "real \<Rightarrow> real \<Rightarrow> vec \<Rightarrow> vec \<Rightarrow> vec \<Rightarrow> vec \<Rightarrow> iterates \<Rightarrow> iterates" where
  \<comment> \<open>lines 396--399\<close>
  "update_iterates alphaPri alphaDual dx dy dz ds it =
     \<lparr>xvec = Axpy alphaPri dx (xvec it),
      yvec = Axpy alphaDual dy (yvec it),
      zvec = Axpy alphaDual dz (zvec it),
      svec = Axpy alphaPri ds (svec it)\<rparr>"

definition newton_step ::
  "collaborators \<Rightarrow> IPMCtrl \<Rightarrow> locals \<Rightarrow> residuals \<Rightarrow> bool \<Rightarrow> loop_state
     \<Rightarrow> step \<times> loop_state" where
  \<comment> \<open>lines 282--411\<close>
  "newton_step E ctrl L r metTolerances st =
     (let Q = pQ (prob L); A = pA (prob L); G = pG (prob L);
          s = svec (iter st); z = zvec (iter st);
          rmu = affine_rmu s z;
          J = KKT E Q A G s z;
          d = KKTRHS E (rc r) (rb r) (rh r) rmu z
      in case (case LDL E J of
                 None \<Rightarrow> None
               | Some (JF, dSub, p) \<Rightarrow>
                   (case SolveAfter E JF dSub p d of
                      None \<Rightarrow> None
                    | Some dAff \<Rightarrow> Some (JF, dSub, p, dAff))) of
           None \<Rightarrow>
             if metTolerances then (Break, st) else (Raise CouldNotAchieveTolerances, st)
         | Some (JF, dSub, p, dAff) \<Rightarrow>
             (case ExpandSolution E (dim_m L) (dim_n L) dAff rmu s z of
                (dxAff, dyAff, dzAff, dsAff) \<Rightarrow>
                  let (alphaAffPri, alphaAffDual) = affine_step_lengths ctrl s dsAff z dzAff;
                      muAff = affine_mu (dim_k L) s dsAff z dzAff alphaAffPri alphaAffDual;
                      sigma = centralityRule ctrl (mu r) muAff alphaAffPri alphaAffDual;
                      rmu' = combined_rmu ctrl sigma (mu r) rmu dsAff dzAff;
                      d' = KKTRHS E (rc r) (rb r) (rh r) rmu' z
                  in (case SolveAfter E JF dSub p d' of
                       None \<Rightarrow> (Raise SolveException, st)
                     | Some dComb \<Rightarrow>
                         (case ExpandSolution E (dim_m L) (dim_n L) dComb rmu' s z of
                            (dx, dy, dz, ds) \<Rightarrow>
                              let (alphaPri, alphaDual) = step_lengths ctrl s ds z dz;
                                  st' = st\<lparr>iter :=
                                    update_iterates alphaPri alphaDual dx dy dz ds (iter st)\<rparr>
                              in if alphaPri = 0 \<and> alphaDual = 0
                                 then (if metTolerances then (Break, st')
                                       else (Raise CouldNotAchieveTolerances, st'))
                                 else (Continue, st')))))"

definition iteration ::
  "collaborators \<Rightarrow> IPMCtrl \<Rightarrow> locals \<Rightarrow> int \<Rightarrow> loop_state \<Rightarrow> step \<times> loop_state" where
  \<comment> \<open>one pass of the loop body, lines 178--411\<close>
  "iteration E ctrl L numIts st =
     (let s = svec (iter st); z = zvec (iter st);
          sNumNonPos = NumOutside s;
          zNumNonPos = NumOutside z
      in if sNumNonPos > 0 \<or> zNumNonPos > 0
         then (Raise (LogicError sNumNonPos zNumNonPos), st)
         else
           let r = compute_residuals L (iter st);
               st1 = st\<lparr>dimacsErrorOld := dimacsError st\<rparr>;
               st2 = st1\<lparr>infeasError := max (max (rbConv r) (rcConv r)) (rhConv r)\<rparr>;
               st3 = st2\<lparr>dimacsError := max (infeasError st2) (maxRelGap r)\<rparr>;
               metTolerances =
                 (infeasError st3 \<le> infeasibilityTol ctrl \<and>
                  relCompGap r \<le> relativeComplementarityGapTol ctrl \<and>
                  relObjGap r \<le> relativeObjectiveGapTol ctrl)
           in if metTolerances
              then (if dimacsError st3 \<ge> minDimacsDecreaseRatio ctrl * dimacsErrorOld st3
                    then (Break, st3)
                    else if numIts = maxIts ctrl
                    then (Break, st3)
                    else newton_step E ctrl L r metTolerances st3)
              else if numIts = maxIts ctrl
              then (Raise (IterationLimit (maxIts ctrl)), st3)
              else newton_step E ctrl L r metTolerances st3)"

function ipm_loop ::
  "collaborators \<Rightarrow> IPMCtrl \<Rightarrow> locals \<Rightarrow> int \<Rightarrow> loop_state \<Rightarrow> outcome \<times> loop_state" where
  \<comment> \<open>\<^verbatim>\<open>for( Int numIts=0; numIts<=ctrl.maxIts; ++numIts )\<close>, entered at \<open>numIts\<close>\<close>
  "ipm_loop E ctrl L numIts st =
     (if numIts \<le> maxIts ctrl
      then (case iteration E ctrl L numIts st of
              (Break, st') \<Rightarrow> (Returned, st')
            | (Raise e, st') \<Rightarrow> (Raised e, st')
            | (Continue, st') \<Rightarrow> ipm_loop E ctrl L (numIts + 1) st')
      else (Returned, st))"
  by pat_completeness auto
termination
  by (relation "measure (\<lambda>(E, ctrl, L, numIts, st). nat (maxIts ctrl + 1 - numIts))") auto

definition IPM :: "collaborators \<Rightarrow> IPMCtrl \<Rightarrow> caller \<Rightarrow> outcome \<times> caller" where
  "IPM E ctrl cs =
     (case equilibrate E ctrl (pre cs) (its cs) of
        (L, D, it0) \<Rightarrow>
          let it1 = Initialize E (prob L) it0
                      (primalInit ctrl) (dualInit ctrl) (standardInitShift ctrl);
              st0 = \<lparr>iter = it1, infeasError = 1, dimacsError = 1, dimacsErrorOld = 1\<rparr>
          in (case ipm_loop E ctrl L 0 st0 of
                (Raised e, st) \<Rightarrow> (Raised e, cs\<lparr>its := iter st\<rparr>)
              | (Returned, st) \<Rightarrow>
                  (Returned,
                   cs\<lparr>its := (if outerEquil ctrl then unscale D (iter st) else iter st)\<rparr>)))"

subsection \<open>The sparse driver: large regularization (lines 899--923 and 1063--1129)\<close>

text \<open>A sparse matrix is read through its entries.\<close>

record SparseMatrix =
  sHeight :: nat
  sWidth :: nat
  sEntry :: "nat \<Rightarrow> nat \<Rightarrow> real"

text \<open>
  Modelled from the spec: \<^verbatim>\<open>UpdateDiagonal( J, alpha, d )\<close> is not in the given sources;
  the spec has it add \<open>alpha d\<^sub>i\<close> to the \<open>i\<close>-th diagonal entry, so that the factored
  matrix is the original one plus a diagonal.
\<close>

definition UpdateDiagonal :: "SparseMatrix \<Rightarrow> real \<Rightarrow> vec \<Rightarrow> SparseMatrix" where
  "UpdateDiagonal J alpha d =
     J\<lparr>sEntry := (\<lambda>i j. if i = j \<and> i < length d
                          then sEntry J i j + alpha * d ! i else sEntry J i j)\<rparr>"

text \<open>
  The collaborators of the sparse driver, as parameters: the two norm estimators, the
  completion of the KKT matrix, the three operations of the factorization handle (of
  an unspecified type \<open>'f\<close>), and the two refined solves, each returning whether the
  requested tolerance was met and the new content of \<^verbatim>\<open>d\<close>.
\<close>

record 'f sparse_collaborators =
  HermitianTwoNormEstimate :: "SparseMatrix \<Rightarrow> int \<Rightarrow> real"
  TwoNormEstimate :: "SparseMatrix \<Rightarrow> int \<Rightarrow> real"
  FinishKKT :: "nat \<Rightarrow> nat \<Rightarrow> vec \<Rightarrow> vec \<Rightarrow> SparseMatrix \<Rightarrow> SparseMatrix"
  LDLInitialize :: "SparseMatrix \<Rightarrow> bool \<Rightarrow> 'f"
  ChangeNonzeroValues :: "'f \<Rightarrow> SparseMatrix \<Rightarrow> 'f"
  Factor :: "'f \<Rightarrow> 'f"
  reg_ldl_SolveAfter ::
    "SparseMatrix \<Rightarrow> vec \<Rightarrow> vec \<Rightarrow> 'f \<Rightarrow> vec \<Rightarrow> RegSolveCtrl \<Rightarrow> bool \<times> vec"
  reg_ldl_RegularizedSolveAfter ::
    "SparseMatrix \<Rightarrow> vec \<Rightarrow> vec \<Rightarrow> 'f \<Rightarrow> vec \<Rightarrow> real \<Rightarrow> int \<Rightarrow> bool \<Rightarrow> bool \<times> vec"

definition origTwoNormEst ::
  "'f sparse_collaborators \<Rightarrow> IPMCtrl \<Rightarrow> SparseMatrix \<Rightarrow> SparseMatrix \<Rightarrow> SparseMatrix \<Rightarrow> real" where
  \<comment> \<open>lines 899--903\<close>
  "origTwoNormEst SE ctrl Q A G =
     (let twoNormEstQ = HermitianTwoNormEstimate SE Q (twoNormKrylovBasisSize ctrl);
          twoNormEstA = TwoNormEstimate SE A (twoNormKrylovBasisSize ctrl);
          twoNormEstG = TwoNormEstimate SE G (twoNormKrylovBasisSize ctrl)
      in twoNormEstA + twoNormEstG + twoNormEstQ + 1)"

definition regLarge_init :: "IPMCtrl \<Rightarrow> nat \<Rightarrow> nat \<Rightarrow> nat \<Rightarrow> real \<Rightarrow> vec" where
  \<comment> \<open>lines 915--923; \<^verbatim>\<open>Resize\<close> leaves entries that the loop overwrites one by one\<close>
  "regLarge_init ctrl n m k est =
     Scale est
       (fold (\<lambda>i regLarge.
                regLarge[i := (if i < n then xRegLarge ctrl
                               else if i < n + m then - yRegLarge ctrl
                               else - zRegLarge ctrl)])
          [0..<n + m + k] (replicate (n + m + k) 0))"

definition sparse_kkt :: "'f sparse_collaborators \<Rightarrow> nat \<Rightarrow> nat \<Rightarrow> vec \<Rightarrow> vec \<Rightarrow> SparseMatrix
    \<Rightarrow> vec \<Rightarrow> SparseMatrix \<times> SparseMatrix" where
  \<comment> \<open>lines 1070--1072 and 1077--1079: the pair \<open>(JOrig, J)\<close>\<close>
  "sparse_kkt SE m n s z JStatic regLarge =
     (let JOrig = FinishKKT SE m n s z JStatic;
          J = UpdateDiagonal JOrig 1 regLarge
      in (JOrig, J))"

definition sparse_affine_solve ::
  "'f sparse_collaborators \<Rightarrow> IPMCtrl \<Rightarrow> int \<Rightarrow> nat \<Rightarrow> nat \<Rightarrow> nat \<Rightarrow> SparseMatrix \<Rightarrow> vec
     \<Rightarrow> 'f \<Rightarrow> vec \<Rightarrow> vec \<Rightarrow> vec \<Rightarrow> bool \<Rightarrow> step + ('f \<times> vec)" where
  \<comment> \<open>lines 1070--1129: \<open>Inl\<close> leaves the loop, \<open>Inr\<close> carries the factorization and
      the solution on to \<^verbatim>\<open>ExpandSolution\<close>; the default \<^verbatim>\<open>RegSolveInfo\<close> has not met
      the tolerance\<close>
  "sparse_affine_solve SE ctrl numIts m n k JStatic regLarge sparseLDLFact s z d metTolerances =
     (case sparse_kkt SE m n s z JStatic regLarge of
        (JOrig, J) \<Rightarrow>
          let dInner = Ones (n + m + k);
              fact1 = (if numIts = 0 \<and> primalInit ctrl \<and> dualInit ctrl
                       then LDLInitialize SE J True
                       else ChangeNonzeroValues SE sparseLDLFact J);
              fact2 = Factor SE fact1;
              (met0, d0) = (if twoStage ctrl
                            then reg_ldl_SolveAfter SE JOrig regLarge dInner fact2 d (solveCtrl ctrl)
                            else (False, d))
          in if \<not> met0
             then (case reg_ldl_RegularizedSolveAfter SE JOrig regLarge dInner fact2 d0
                          (relTol (solveCtrl ctrl)) (maxRefineIts (solveCtrl ctrl))
                          (progress (solveCtrl ctrl)) of
                     (met1, d1) \<Rightarrow>
                       if \<not> met1
                       then (if metTolerances then Inl Break
                             else Inl (Raise CouldNotAchieveTolerances))
                       else Inr (fact2, d1))
             else Inr (fact2, d0))"

subsection \<open>Sample data\<close>

text \<open>
  A linear program in one variable, \<open>minimize -x subject to x + s = 1, s \<ge> 0\<close>
  (\<open>n = 1, m = 0, k = 1\<close>), whose solution \<open>x = 1, s = 0, z = 1\<close> lies on the
  boundary of the orthant.
\<close>

definition ex_problem :: problem where
  "ex_problem =
     \<lparr>pQ = \<lparr>Height = 1, Width = 1, Entries = [[0]]\<rparr>,
      pA = \<lparr>Height = 0, Width = 1, Entries = []\<rparr>,
      pG = \<lparr>Height = 1, Width = 1, Entries = [[1]]\<rparr>,
      pb = [], pc = [- 1], ph = [1]\<rparr>"

definition ex_interior :: iterates where
  "ex_interior = \<lparr>xvec = [1 / 2], yvec = [], zvec = [1], svec = [1 / 2]\<rparr>"

definition ex_boundary :: iterates where
  "ex_boundary = \<lparr>xvec = [1], yvec = [], zvec = [1], svec = [0]\<rparr>"

text \<open>
  Sample collaborators: an equilibration that scales every row and column by 2, an
  initializer that keeps the warm start, and a factorization that always throws.
\<close>

definition ex_equil :: "matrix \<Rightarrow> matrix \<Rightarrow> matrix \<times> matrix \<times> vec \<times> vec \<times> vec" where
  "ex_equil A G =
     (A\<lparr>Entries := map (map (\<lambda>e. e / 4)) (Entries A)\<rparr>,
      G\<lparr>Entries := map (map (\<lambda>e. e / 4)) (Entries G)\<rparr>,
      replicate (Height A) 2, replicate (Height G) 2, replicate (Width A) 2)"

definition ex_collab :: collaborators where
  "ex_collab =
     \<lparr>StackedRuizEquil = ex_equil,
      Initialize = (\<lambda>P it primalInit' dualInit' shift. it),
      KKT = (\<lambda>Q A G s z. Q),
      KKTRHS = (\<lambda>rc' rb' rh' rmu z. rc' @ rb' @ rh'),
      LDL = (\<lambda>J. None),
      SolveAfter = (\<lambda>J dSub p d. None),
      ExpandSolution = (\<lambda>m n d rmu s z. ([], [], [], []))\<rparr>"

definition ex_ctrl :: IPMCtrl where
  "ex_ctrl =
     \<lparr>primalInit = True, dualInit = True, standardInitShift = True, outerEquil = False,
      maxIts = 0, infeasibilityTol = 1 / 10 ^ 8, relativeObjectiveGapTol = 1 / 10 ^ 8,
      relativeComplementarityGapTol = 1 / 10 ^ 8, minDimacsDecreaseRatio = 9 / 10,
      maxStepRatio = 99 / 100, forceSameStep = False, mehrotra = True,
      centralityRule = (\<lambda>mu' muAff alphaAffPri alphaAffDual. (muAff / mu') ^ 3),
      xRegSmall = 0, yRegSmall = 0, zRegSmall = 0,
      xRegLarge = 1 / 10 ^ 6, yRegLarge = 1 / 10 ^ 5, zRegLarge = 1 / 10 ^ 4,
      twoStage = True, twoNormKrylovBasisSize = 6,
      solveCtrl = \<lparr>relTol = 1 / 10 ^ 12, maxRefineIts = 50, progress = False\<rparr>\<rparr>"

definition ex_loose :: IPMCtrl where
  "ex_loose = ex_ctrl\<lparr>relativeObjectiveGapTol := 1 / 2, relativeComplementarityGapTol := 1\<rparr>"

definition ex_locals :: locals where
  "ex_locals =
     \<lparr>prob = ex_problem, dim_m = 0, dim_k = 1, dim_n = 1, bNrm2 = 0, cNrm2 = 1, hNrm2 = 1\<rparr>"

definition ex_state :: "iterates \<Rightarrow> loop_state" where
  "ex_state it = \<lparr>iter = it, infeasError = 1, dimacsError = 1, dimacsErrorOld = 1\<rparr>"

definition ex_sparse_collab :: "SparseMatrix sparse_collaborators" where
  "ex_sparse_collab =
     \<lparr>HermitianTwoNormEstimate = (\<lambda>Q basisSize. 2),
      TwoNormEstimate = (\<lambda>M basisSize. 3),
      FinishKKT = (\<lambda>m n s z J. J),
      LDLInitialize = (\<lambda>J hermitian. J),
      ChangeNonzeroValues = (\<lambda>F J. J),
      Factor = (\<lambda>F. F),
      reg_ldl_SolveAfter = (\<lambda>JOrig reg dInner F d solve. (True, d)),
      reg_ldl_RegularizedSolveAfter = (\<lambda>JOrig reg dInner F d tol its prog. (True, d))\<rparr>"

definition ex_JStatic :: SparseMatrix where
  "ex_JStatic = \<lparr>sHeight = 3, sWidth = 3, sEntry = (\<lambda>i j. real (i + 2 * j))\<rparr>"

definition ex_call :: "iterates \<Rightarrow> caller" where
  "ex_call it = \<lparr>pre = ex_problem, its = it\<rparr>"

definition ex_scaled :: iterates where
  "ex_scaled = \<lparr>xvec = [1], yvec = [], zvec = [2], svec = [1 / 4]\<rparr>"

definition ex_locals_scaled :: locals where
  "ex_locals_scaled =
     \<lparr>prob = \<lparr>pQ = \<lparr>Height = 1, Width = 1, Entries = [[0]]\<rparr>,
               pA = \<lparr>Height = 0, Width = 1, Entries = []\<rparr>,
               pG = \<lparr>Height = 1, Width = 1, Entries = [[1 / 4]]\<rparr>,
               pb = [], pc = [- (1 / 2)], ph = [1 / 2]\<rparr>,
      dim_m = 0, dim_k = 1, dim_n = 1, bNrm2 = 0, cNrm2 = 1 / 2, hNrm2 = 1 / 2\<rparr>"

text \<open>
  Sample collaborators with which a Newton step goes through: the factorization and the
  solves hand their argument back, and the slack direction is expanded as
  \<open>\<Delta>s = (- r\<^sub>\<mu> - s \<odot> \<Delta>z) / z\<close>.
\<close>

definition ex_solver :: collaborators where
  "ex_solver =
     ex_collab
       \<lparr>LDL := (\<lambda>J. Some (J, [], [])),
        SolveAfter := (\<lambda>J dSub p d. Some d),
        ExpandSolution := (\<lambda>m n d rmu s z.
          (take n d, take m (drop n d), drop (n + m) d,
           map2 (\<lambda>(ri, zi) (si, dzi). (- ri - si * dzi) / zi)
             (zip rmu z) (zip s (drop (n + m) d))))\<rparr>"

section \<open>Properties\<close>

subsection \<open>The loop, one pass at a time\<close>

declare ipm_loop.simps [simp del]

lemma ipm_loop_unfold:
  "numIts \<le> maxIts ctrl \<Longrightarrow>
   ipm_loop E ctrl L numIts st =
     (case iteration E ctrl L numIts st of
        (Break, st') \<Rightarrow> (Returned, st')
      | (Raise e, st') \<Rightarrow> (Raised e, st')
      | (Continue, st') \<Rightarrow> ipm_loop E ctrl L (numIts + 1) st')"
  by (subst ipm_loop.simps) simp

lemma ipm_loop_Raise:
  "numIts \<le> maxIts ctrl \<Longrightarrow> iteration E ctrl L numIts st = (Raise e, st')
   \<Longrightarrow> ipm_loop E ctrl L numIts st = (Raised e, st')"
  by (simp add: ipm_loop_unfold)

lemma iteration_checked:
  "NumOutside (svec (iter st)) = 0 \<Longrightarrow> NumOutside (zvec (iter st)) = 0 \<Longrightarrow>
   iteration E ctrl L numIts st =
     (let r = compute_residuals L (iter st);
          infeas = max (max (rbConv r) (rcConv r)) (rhConv r);
          dimacs = max infeas (maxRelGap r);
          st' = st\<lparr>dimacsErrorOld := dimacsError st, infeasError := infeas,
                   dimacsError := dimacs\<rparr>;
          met = (infeas \<le> infeasibilityTol ctrl
                 \<and> relCompGap r \<le> relativeComplementarityGapTol ctrl
                 \<and> relObjGap r \<le> relativeObjectiveGapTol ctrl)
      in if met
         then (if dimacs \<ge> minDimacsDecreaseRatio ctrl * dimacsError st \<or> numIts = maxIts ctrl
               then (Break, st')
               else newton_step E ctrl L r met st')
         else if numIts = maxIts ctrl
         then (Raise (IterationLimit (maxIts ctrl)), st')
         else newton_step E ctrl L r met st')"
  by (simp add: iteration_def Let_def)

lemma iteration_outside:
  "0 < NumOutside (svec (iter st)) \<or> 0 < NumOutside (zvec (iter st)) \<Longrightarrow>
   iteration E ctrl L numIts st =
     (Raise (LogicError (NumOutside (svec (iter st))) (NumOutside (zvec (iter st)))), st)"
  by (auto simp: iteration_def Let_def)

lemma newton_step_measures:
  "infeasError (snd (newton_step E ctrl L r met st)) = infeasError st
   \<and> dimacsError (snd (newton_step E ctrl L r met st)) = dimacsError st
   \<and> dimacsErrorOld (snd (newton_step E ctrl L r met st)) = dimacsErrorOld st"
  by (simp add: newton_step_def Let_def split: option.splits prod.splits)

lemma iteration_last_pass:
  "iteration E ctrl L (maxIts ctrl) st =
     (let s = svec (iter st); z = zvec (iter st);
          r = compute_residuals L (iter st);
          infeas = max (max (rbConv r) (rcConv r)) (rhConv r);
          st' = st\<lparr>dimacsErrorOld := dimacsError st, infeasError := infeas,
                   dimacsError := max infeas (maxRelGap r)\<rparr>
      in if 0 < NumOutside s \<or> 0 < NumOutside z
         then (Raise (LogicError (NumOutside s) (NumOutside z)), st)
         else if infeas \<le> infeasibilityTol ctrl
                 \<and> relCompGap r \<le> relativeComplementarityGapTol ctrl
                 \<and> relObjGap r \<le> relativeObjectiveGapTol ctrl
         then (Break, st')
         else (Raise (IterationLimit (maxIts ctrl)), st'))"
  by (simp add: iteration_def Let_def)

lemma NumOutside_pos_iff: "0 < NumOutside v \<longleftrightarrow> (\<exists>e\<in>set v. e \<le> 0)"
  by (auto simp: NumOutside_def filter_empty_conv)

lemma newton_step_no_LogicError:
  "fst (newton_step E ctrl L r met st) \<noteq> Raise (LogicError a b)"
  by (simp add: newton_step_def Let_def split: option.splits prod.splits)

lemma iteration_LogicError:
  assumes "iteration E ctrl L numIts st = (Raise (LogicError a b), st')"
  shows "st' = st \<and> a = NumOutside (svec (iter st)) \<and> b = NumOutside (zvec (iter st))
         \<and> (0 < a \<or> 0 < b)"
proof (cases "0 < NumOutside (svec (iter st)) \<or> 0 < NumOutside (zvec (iter st))")
  case True
  with assms show ?thesis by (auto simp: iteration_def Let_def)
next
  case False
  have "fst (iteration E ctrl L numIts st) \<noteq> Raise (LogicError a b)"
    using False newton_step_no_LogicError [of E ctrl L _ _ _ a b]
    by (auto simp: iteration_def Let_def)
  with assms show ?thesis by simp
qed

lemma ipm_loop_LogicError:
  "ipm_loop E ctrl L numIts st = (Raised (LogicError a b), st') \<Longrightarrow>
   a = NumOutside (svec (iter st')) \<and> b = NumOutside (zvec (iter st')) \<and> (0 < a \<or> 0 < b)"
proof (induction E ctrl L numIts st rule: ipm_loop.induct)
  case (1 E ctrl L numIts st)
  show ?case
  proof (cases "numIts \<le> maxIts ctrl")
    case False
    with "1.prems" show ?thesis by (simp add: ipm_loop.simps)
  next
    case le: True
    obtain w st1 where it: "iteration E ctrl L numIts st = (w, st1)"
      by (cases "iteration E ctrl L numIts st")
    show ?thesis
    proof (cases w)
      case Break
      with "1.prems" le it show ?thesis by (simp add: ipm_loop_unfold)
    next
      case (Raise e)
      with "1.prems" le it have "e = LogicError a b" "st1 = st'"
        by (simp_all add: ipm_loop_unfold)
      with it Raise have "iteration E ctrl L numIts st = (Raise (LogicError a b), st')"
        by simp
      from iteration_LogicError [OF this] show ?thesis
        by blast
    next
      case Continue
      with "1.prems" le it have "ipm_loop E ctrl L (numIts + 1) st1 = (Raised (LogicError a b), st')"
        by (simp add: ipm_loop_unfold)
      with "1.IH" [OF le it [symmetric]] Continue show ?thesis by blast
    qed
  qed
qed

lemma IPM_LogicError:
  assumes "IPM E ctrl cs = (Raised (LogicError a b), cs')"
  shows "a = NumOutside (svec (its cs')) \<and> b = NumOutside (zvec (its cs')) \<and> (0 < a \<or> 0 < b)"
proof -
  obtain L D it0 where eq: "equilibrate E ctrl (pre cs) (its cs) = (L, D, it0)"
    by (cases "equilibrate E ctrl (pre cs) (its cs)") auto
  define st0 where "st0 = \<lparr>iter = Initialize E (prob L) it0
      (primalInit ctrl) (dualInit ctrl) (standardInitShift ctrl),
      infeasError = 1, dimacsError = 1, dimacsErrorOld = 1\<rparr>"
  obtain oc st where lp: "ipm_loop E ctrl L 0 st0 = (oc, st)"
    by (cases "ipm_loop E ctrl L 0 st0")
  from assms eq lp have "oc = Raised (LogicError a b)" "cs' = cs\<lparr>its := iter st\<rparr>"
    by (auto simp: IPM_def Let_def st0_def split: outcome.splits)
  with lp ipm_loop_LogicError [of E ctrl L 0 st0 a b st] show ?thesis
    by auto
qed

lemma newton_step_Continue:
  assumes "newton_step E ctrl L r met st = (Continue, st')"
  shows "\<exists>JF dSub p dAff dxAff dyAff dzAff dsAff dComb dx dy dz ds.
      LDL E (KKT E (pQ (prob L)) (pA (prob L)) (pG (prob L)) (svec (iter st)) (zvec (iter st)))
        = Some (JF, dSub, p)
      \<and> SolveAfter E JF dSub p
          (KKTRHS E (rc r) (rb r) (rh r) (affine_rmu (svec (iter st)) (zvec (iter st)))
             (zvec (iter st))) = Some dAff
      \<and> ExpandSolution E (dim_m L) (dim_n L) dAff (affine_rmu (svec (iter st)) (zvec (iter st)))
          (svec (iter st)) (zvec (iter st)) = (dxAff, dyAff, dzAff, dsAff)
      \<and> (let alphaAff = affine_step_lengths ctrl (svec (iter st)) dsAff (zvec (iter st)) dzAff;
              sigma = centralityRule ctrl (mu r)
                (affine_mu (dim_k L) (svec (iter st)) dsAff (zvec (iter st)) dzAff
                   (fst alphaAff) (snd alphaAff))
                (fst alphaAff) (snd alphaAff);
              rmu' = combined_rmu ctrl sigma (mu r)
                (affine_rmu (svec (iter st)) (zvec (iter st))) dsAff dzAff
          in SolveAfter E JF dSub p (KKTRHS E (rc r) (rb r) (rh r) rmu' (zvec (iter st)))
               = Some dComb
             \<and> ExpandSolution E (dim_m L) (dim_n L) dComb rmu' (svec (iter st)) (zvec (iter st))
               = (dx, dy, dz, ds))
      \<and> st' = st\<lparr>iter := update_iterates
                  (fst (step_lengths ctrl (svec (iter st)) ds (zvec (iter st)) dz))
                  (snd (step_lengths ctrl (svec (iter st)) ds (zvec (iter st)) dz))
                  dx dy dz ds (iter st)\<rparr>"
  using assms
  by (clarsimp simp: newton_step_def Let_def split: option.splits prod.splits if_splits)

subsection \<open>The largest step as a minimum\<close>

lemma MaxStep_fold:
  "MaxStep v dv bound = fold min [- vi / dvi. (vi, dvi) \<leftarrow> zip v dv, dvi < 0] bound"
  by (induction v dv bound rule: MaxStep.induct) (auto simp: min.commute)

lemma negative_ratios_set:
  "set [- vi / dvi. (vi, dvi) \<leftarrow> zip v dv, dvi < 0] =
     {- v ! i / dv ! i | i. i < length v \<and> i < length dv \<and> dv ! i < 0}"
  by (auto simp: set_zip)

lemma fold_min_Min: "fold min xs (a::real) = Min (insert a (set xs))"
proof -
  have "Min (set (a # xs)) = fold min xs a"
    by (rule Min.set_eq_fold)
  then show ?thesis by simp
qed

lemma MaxStep_Min:
  "MaxStep v dv bound =
     Min (insert bound {- v ! i / dv ! i | i. i < length v \<and> i < length dv \<and> dv ! i < 0})"
  unfolding MaxStep_fold fold_min_Min negative_ratios_set ..

lemma MaxStep_no_negative:
  assumes "\<forall>i. i < length v \<and> i < length dv \<longrightarrow> \<not> dv ! i < 0"
  shows "MaxStep v dv bound = bound"
proof -
  have e: "{- v ! i / dv ! i | i. i < length v \<and> i < length dv \<and> dv ! i < 0} = {}"
    using assms by auto
  show ?thesis
    unfolding MaxStep_Min e by simp
qed

subsection \<open>The regularization vector and the sparse solve\<close>

lemma fold_update_length:
  "length (fold (\<lambda>i r. r[i := f i]) js xs) = length xs"
  by (induction js arbitrary: xs) auto

lemma fold_update_upt_nth:
  "N \<le> length xs \<Longrightarrow> i < N \<Longrightarrow> fold (\<lambda>i r. r[i := f i]) [0..<N] xs ! i = f i"
proof (induction N)
  case 0
  then show ?case by simp
next
  case (Suc N)
  show ?case
  proof (cases "i = N")
    case True
    with Suc.prems show ?thesis by (simp add: fold_update_length)
  next
    case False
    with Suc show ?thesis by simp
  qed
qed

lemma regLarge_init_length: "length (regLarge_init ctrl n m k est) = n + m + k"
  by (simp add: regLarge_init_def Scale_def fold_update_length)

lemma regLarge_init_nth:
  "i < n + m + k \<Longrightarrow>
   regLarge_init ctrl n m k est ! i =
     (if i < n then xRegLarge ctrl else if i < n + m then - yRegLarge ctrl
      else - zRegLarge ctrl) * est"
  by (simp add: regLarge_init_def Scale_def fold_update_length fold_update_upt_nth)

lemma sparse_affine_solve_unfold:
  "sparse_affine_solve SE ctrl numIts m n k JStatic regLarge F s z d met =
     (let JOrig = FinishKKT SE m n s z JStatic;
          J = UpdateDiagonal JOrig 1 regLarge;
          fact = Factor SE (if numIts = 0 \<and> primalInit ctrl \<and> dualInit ctrl
                            then LDLInitialize SE J True
                            else ChangeNonzeroValues SE F J);
          first = (if twoStage ctrl
                   then reg_ldl_SolveAfter SE JOrig regLarge (Ones (n + m + k)) fact d
                          (solveCtrl ctrl)
                   else (False, d))
      in if fst first then Inr (fact, snd first)
         else (let second = reg_ldl_RegularizedSolveAfter SE JOrig regLarge
                              (Ones (n + m + k)) fact (snd first)
                              (relTol (solveCtrl ctrl)) (maxRefineIts (solveCtrl ctrl))
                              (progress (solveCtrl ctrl))
               in if fst second then Inr (fact, snd second)
                  else if met then Inl Break
                  else Inl (Raise CouldNotAchieveTolerances)))"
  by (simp add: sparse_affine_solve_def sparse_kkt_def Let_def split: prod.splits)

subsection \<open>The sample data, evaluated\<close>

lemma ex_residuals_interior:
  "compute_residuals ex_locals ex_interior =
     \<lparr>dualProd = 1 / 2, mu = 1 / 2, primObj = - (1 / 2), dualObj = - 1,
      relObjGap = 1 / 4, relCompGap = 1, maxRelGap = 1, rb = [],
      rbConv = 0, rc = [0], rcConv = 0, rh = [0], rhConv = 0\<rparr>"
  by (simp add: compute_residuals_def ex_locals_def ex_problem_def ex_interior_def Let_def
      Dot_def Nrm2_def Hemv_def Zeros_def Scale_def Add_def RelativeObjectiveGap_def
      RelativeComplementarityGap_def)

lemma ex_interior_inside:
  "NumOutside (svec ex_interior) = 0" "NumOutside (zvec ex_interior) = 0"
  by (simp_all add: NumOutside_def ex_interior_def)

lemma ex_ctrl_fields:
  "maxIts ex_ctrl = 0" "infeasibilityTol ex_ctrl = 1 / 10 ^ 8"
  "relativeObjectiveGapTol ex_ctrl = 1 / 10 ^ 8"
  "relativeComplementarityGapTol ex_ctrl = 1 / 10 ^ 8"
  "minDimacsDecreaseRatio ex_ctrl = 9 / 10" "maxStepRatio ex_ctrl = 99 / 100"
  "outerEquil ex_ctrl = False" "primalInit ex_ctrl = True" "dualInit ex_ctrl = True"
  "standardInitShift ex_ctrl = True" "forceSameStep ex_ctrl = False" "mehrotra ex_ctrl = True"
  by (simp_all add: ex_ctrl_def)

lemma ex_loose_fields:
  "maxIts ex_loose = 0" "infeasibilityTol ex_loose = 1 / 10 ^ 8"
  "relativeObjectiveGapTol ex_loose = 1 / 2"
  "relativeComplementarityGapTol ex_loose = 1"
  "minDimacsDecreaseRatio ex_loose = 9 / 10"
  "outerEquil ex_loose = False" "primalInit ex_loose = True" "dualInit ex_loose = True"
  "standardInitShift ex_loose = True"
  by (simp_all add: ex_loose_def ex_ctrl_def)

lemma ex_equilibrate:
  "equilibrate ex_collab ex_ctrl ex_problem it =
     (ex_locals, \<lparr>dRowA = [], dRowG = [1], dCol = [1]\<rparr>, it)"
  by (simp add: equilibrate_def ex_ctrl_fields ex_problem_def ex_locals_def Let_def Ones_def
      Nrm2_def Dot_def)

lemma ex_Initialize: "Initialize ex_collab P it a b c = it"
  by (simp add: ex_collab_def)

lemma ex_boundary_outside:
  "NumOutside (svec ex_boundary) = 1" "NumOutside (zvec ex_boundary) = 0"
  by (simp_all add: NumOutside_def ex_boundary_def)

lemma ex_equilibrate_loose:
  "equilibrate ex_collab ex_loose ex_problem it =
     (ex_locals, \<lparr>dRowA = [], dRowG = [1], dCol = [1]\<rparr>, it)"
  by (simp add: equilibrate_def ex_loose_fields ex_problem_def ex_locals_def Let_def Ones_def
      Nrm2_def Dot_def)

lemma ex_residuals_boundary:
  "compute_residuals ex_locals ex_boundary =
     \<lparr>dualProd = 0, mu = 0, primObj = - 1, dualObj = - 1,
      relObjGap = 0, relCompGap = 0, maxRelGap = 0, rb = [],
      rbConv = 0, rc = [0], rcConv = 0, rh = [0], rhConv = 0\<rparr>"
  by (simp add: compute_residuals_def ex_locals_def ex_problem_def ex_boundary_def Let_def
      Dot_def Nrm2_def Hemv_def Zeros_def Scale_def Add_def RelativeObjectiveGap_def
      RelativeComplementarityGap_def)

lemma sqrt_quarter: "sqrt (1 / 4) = 1 / 2"
  by (simp add: real_sqrt_divide)

lemma ex_equilibrate_outer:
  "outerEquil ctrl \<Longrightarrow> primalInit ctrl \<Longrightarrow> dualInit ctrl \<Longrightarrow>
   equilibrate ex_collab ctrl ex_problem ex_interior =
     (ex_locals_scaled, \<lparr>dRowA = [], dRowG = [2], dCol = [2]\<rparr>, ex_scaled)"
  by (simp add: equilibrate_def ex_collab_def ex_equil_def ex_problem_def ex_interior_def
      ex_locals_scaled_def ex_scaled_def Let_def DiagonalSolve_def DiagonalScale_def
      DiagonalSolveLeft_def DiagonalSolveRight_def Nrm2_def Dot_def sqrt_quarter)

lemma ex_residuals_scaled:
  "compute_residuals ex_locals_scaled ex_scaled =
     \<lparr>dualProd = 1 / 2, mu = 1 / 2, primObj = - (1 / 2), dualObj = - 1,
      relObjGap = 1 / 4, relCompGap = 1, maxRelGap = 1, rb = [],
      rbConv = 0, rc = [0], rcConv = 0, rh = [0], rhConv = 0\<rparr>"
  by (simp add: compute_residuals_def ex_locals_scaled_def ex_scaled_def Let_def
      Dot_def Nrm2_def Hemv_def Zeros_def Scale_def Add_def RelativeObjectiveGap_def
      RelativeComplementarityGap_def)

lemma ex_scaled_inside:
  "NumOutside (svec ex_scaled) = 0" "NumOutside (zvec ex_scaled) = 0"
  by (simp_all add: NumOutside_def ex_scaled_def)

lemma ex_loop_scaled_tight:
  "ipm_loop ex_collab (ex_ctrl\<lparr>outerEquil := True\<rparr>) ex_locals_scaled 0 (ex_state ex_scaled) =
     (Raised (IterationLimit 0),
      \<lparr>iter = ex_scaled, infeasError = 0, dimacsError = 1, dimacsErrorOld = 1\<rparr>)"
  by (simp add: ipm_loop_unfold iteration_checked ex_scaled_inside ex_state_def
      ex_residuals_scaled ex_ctrl_fields Let_def)

lemma ex_loop_scaled_loose:
  "ipm_loop ex_collab (ex_loose\<lparr>outerEquil := True\<rparr>) ex_locals_scaled 0 (ex_state ex_scaled) =
     (Returned,
      \<lparr>iter = ex_scaled, infeasError = 0, dimacsError = 1, dimacsErrorOld = 1\<rparr>)"
  by (simp add: ipm_loop_unfold iteration_checked ex_scaled_inside ex_state_def
      ex_residuals_scaled ex_loose_fields Let_def)

lemma ex_ratio_sets:
  "{- [1, 2::real] ! i / [- 2, 1::real] ! i | i. i < length [1, 2::real] \<and> i < length [- 2, 1::real] \<and> [- 2, 1::real] ! i < 0} = {1 / 2}"
  "{- [1, 1::real] ! i / [- 1, - 4::real] ! i | i. i < length [1, 1::real] \<and> i < length [- 1, - 4::real] \<and> [- 1, - 4::real] ! i < 0} = {1, 1 / 4}"
  unfolding negative_ratios_set [symmetric] by simp_all

lemma ex_sparse_fields:
  "HermitianTwoNormEstimate ex_sparse_collab = (\<lambda>Q basisSize. 2)"
  "TwoNormEstimate ex_sparse_collab = (\<lambda>M basisSize. 3)"
  "FinishKKT ex_sparse_collab = (\<lambda>m n s z J. J)"
  by (simp_all add: ex_sparse_collab_def)

lemma ex_ctrl_reg:
  "xRegLarge ex_ctrl = 1 / 10 ^ 6" "yRegLarge ex_ctrl = 1 / 10 ^ 5"
  "zRegLarge ex_ctrl = 1 / 10 ^ 4"
  by (simp_all add: ex_ctrl_def)

lemma ex_newton_step:
  "newton_step ex_solver (ex_ctrl\<lparr>maxIts := 5\<rparr>) ex_locals
     (compute_residuals ex_locals ex_interior) False
     \<lparr>iter = ex_interior, infeasError = 0, dimacsError = 1, dimacsErrorOld = 1\<rparr> =
   (Continue,
    \<lparr>iter = \<lparr>xvec = [1 / 2], yvec = [], zvec = [1], svec = [1 / 200]\<rparr>,
     infeasError = 0, dimacsError = 1, dimacsErrorOld = 1\<rparr>)"
  unfolding ex_residuals_interior
  by (simp add: newton_step_def ex_solver_def ex_collab_def ex_locals_def
      ex_interior_def ex_ctrl_fields affine_rmu_def affine_step_lengths_def affine_mu_def
      combined_rmu_def step_lengths_def update_iterates_def DiagonalScale_def Axpy_def
      Shift_def Add_def Dot_def Let_def ex_ctrl_def)

subsection \<open>Claims\<close>

text \<open>
  C1 (as amended).  In every pass of the loop (the counter is within \<^verbatim>\<open>maxIts\<close>) the
  exit is decided as follows.  If some entry of \<open>s\<close> or \<open>z\<close> is nonpositive, the logic
  error of the cone check is raised before anything is measured.  Otherwise let \<open>met\<close>
  say that the infeasibility error, the relative complementarity gap and the relative
  objective gap are each within their tolerance, and let \<open>stalled\<close> say that the new
  DIMACS error is at least \<^verbatim>\<open>minDimacsDecreaseRatio\<close> times the stored one.  If \<open>met\<close>
  holds and the error stalled or the counter equals \<^verbatim>\<open>maxIts\<close>, the pass breaks and the
  loop returns; if \<open>met\<close> fails and the counter equals \<^verbatim>\<open>maxIts\<close>, the iteration-limit
  error is raised; in every other case the pass goes on to the Newton step.  A pass
  that got beyond the cone check leaves its own DIMACS error as the stored one,
  whatever its exit, so that the stored error of a pass is the DIMACS error of the
  pass before it (the driver starts the loop with the value 1).
\<close>

theorem convergence_gate_decides:
  "numIts \<le> maxIts ctrl \<Longrightarrow>
   (let s = svec (iter st); z = zvec (iter st);
        outside = (0 < NumOutside s \<or> 0 < NumOutside z);
        r = compute_residuals L (iter st);
        infeas = max (max (rbConv r) (rcConv r)) (rhConv r);
        dimacs = max infeas (maxRelGap r);
        st' = st\<lparr>dimacsErrorOld := dimacsError st, infeasError := infeas,
                 dimacsError := dimacs\<rparr>;
        met = (infeas \<le> infeasibilityTol ctrl
               \<and> relCompGap r \<le> relativeComplementarityGapTol ctrl
               \<and> relObjGap r \<le> relativeObjectiveGapTol ctrl);
        stalled = (dimacs \<ge> minDimacsDecreaseRatio ctrl * dimacsError st);
        final = (numIts = maxIts ctrl)
    in (outside \<longrightarrow>
          iteration E ctrl L numIts st = (Raise (LogicError (NumOutside s) (NumOutside z)), st)
          \<and> ipm_loop E ctrl L numIts st = (Raised (LogicError (NumOutside s) (NumOutside z)), st))
     \<and> (\<not> outside \<and> met \<and> (stalled \<or> final) \<longrightarrow>
          iteration E ctrl L numIts st = (Break, st')
          \<and> ipm_loop E ctrl L numIts st = (Returned, st'))
     \<and> (\<not> outside \<and> \<not> met \<and> final \<longrightarrow>
          iteration E ctrl L numIts st = (Raise (IterationLimit (maxIts ctrl)), st')
          \<and> ipm_loop E ctrl L numIts st = (Raised (IterationLimit (maxIts ctrl)), st'))
     \<and> (\<not> outside \<and> \<not> (met \<and> (stalled \<or> final)) \<and> \<not> (\<not> met \<and> final) \<longrightarrow>
          iteration E ctrl L numIts st = newton_step E ctrl L r met st')
     \<and> (\<not> outside \<longrightarrow>
          dimacsError (snd (iteration E ctrl L numIts st)) = dimacs
          \<and> dimacsErrorOld (snd (iteration E ctrl L numIts st)) = dimacsError st))"
proof -
  assume le: "numIts \<le> maxIts ctrl"
  define s where "s = svec (iter st)"
  define z where "z = zvec (iter st)"
  define outside where "outside = (0 < NumOutside s \<or> 0 < NumOutside z)"
  define r where "r = compute_residuals L (iter st)"
  define infeas where "infeas = max (max (rbConv r) (rcConv r)) (rhConv r)"
  define dimacs where "dimacs = max infeas (maxRelGap r)"
  define st' where "st' = st\<lparr>dimacsErrorOld := dimacsError st, infeasError := infeas,
                 dimacsError := dimacs\<rparr>"
  define met where "met = (infeas \<le> infeasibilityTol ctrl
               \<and> relCompGap r \<le> relativeComplementarityGapTol ctrl
               \<and> relObjGap r \<le> relativeObjectiveGapTol ctrl)"
  define stalled where "stalled = (dimacs \<ge> minDimacsDecreaseRatio ctrl * dimacsError st)"
  define final where "final = (numIts = maxIts ctrl)"
  have out: "iteration E ctrl L numIts st = (Raise (LogicError (NumOutside s) (NumOutside z)), st)"
    if outside
    using that iteration_outside [of st E ctrl L numIts] by (simp add: outside_def s_def z_def)
  have it: "iteration E ctrl L numIts st =
      (if met then (if stalled \<or> final then (Break, st') else newton_step E ctrl L r met st')
       else if final then (Raise (IterationLimit (maxIts ctrl)), st')
       else newton_step E ctrl L r met st')" if "\<not> outside"
  proof -
    from that have z0: "NumOutside (svec (iter st)) = 0" "NumOutside (zvec (iter st)) = 0"
      by (simp_all add: outside_def s_def z_def)
    show ?thesis
      unfolding met_def stalled_def final_def st'_def dimacs_def infeas_def r_def
      using iteration_checked [OF z0, of E ctrl L numIts] by (simp only: Let_def)
  qed
  have st'_fields: "dimacsError st' = dimacs" "dimacsErrorOld st' = dimacsError st"
    by (simp_all add: st'_def)
  have thread: "dimacsError (snd (iteration E ctrl L numIts st)) = dimacs
      \<and> dimacsErrorOld (snd (iteration E ctrl L numIts st)) = dimacsError st" if "\<not> outside"
    using it [OF that] newton_step_measures [of E ctrl L r met st'] st'_fields
    by (cases met; cases stalled; cases final) simp_all
  have "(outside \<longrightarrow>
          iteration E ctrl L numIts st = (Raise (LogicError (NumOutside s) (NumOutside z)), st)
          \<and> ipm_loop E ctrl L numIts st = (Raised (LogicError (NumOutside s) (NumOutside z)), st))
     \<and> (\<not> outside \<and> met \<and> (stalled \<or> final) \<longrightarrow>
          iteration E ctrl L numIts st = (Break, st')
          \<and> ipm_loop E ctrl L numIts st = (Returned, st'))
     \<and> (\<not> outside \<and> \<not> met \<and> final \<longrightarrow>
          iteration E ctrl L numIts st = (Raise (IterationLimit (maxIts ctrl)), st')
          \<and> ipm_loop E ctrl L numIts st = (Raised (IterationLimit (maxIts ctrl)), st'))
     \<and> (\<not> outside \<and> \<not> (met \<and> (stalled \<or> final)) \<and> \<not> (\<not> met \<and> final) \<longrightarrow>
          iteration E ctrl L numIts st = newton_step E ctrl L r met st')
     \<and> (\<not> outside \<longrightarrow>
          dimacsError (snd (iteration E ctrl L numIts st)) = dimacs
          \<and> dimacsErrorOld (snd (iteration E ctrl L numIts st)) = dimacsError st)"
  proof (cases outside)
    case True
    with le out show ?thesis by (simp add: ipm_loop_unfold)
  next
    case False
    with le it thread show ?thesis
      by (cases met; cases stalled; cases final) (simp_all add: ipm_loop_unfold)
  qed
  then show ?thesis
    unfolding Let_def met_def stalled_def final_def st'_def dimacs_def infeas_def r_def
      outside_def s_def z_def .
qed

theorem convergence_gate_decides_witness:
  "ipm_loop ex_collab ex_loose ex_locals 0 (ex_state ex_interior) =
     (Returned, \<lparr>iter = ex_interior, infeasError = 0, dimacsError = 1, dimacsErrorOld = 1\<rparr>)
   \<and> ipm_loop ex_collab ex_ctrl ex_locals 0 (ex_state ex_interior) =
     (Raised (IterationLimit 0),
      \<lparr>iter = ex_interior, infeasError = 0, dimacsError = 1, dimacsErrorOld = 1\<rparr>)
   \<and> iteration ex_collab (ex_ctrl\<lparr>maxIts := 5\<rparr>) ex_locals 0 (ex_state ex_interior) =
     newton_step ex_collab (ex_ctrl\<lparr>maxIts := 5\<rparr>) ex_locals
       (compute_residuals ex_locals ex_interior) False
       \<lparr>iter = ex_interior, infeasError = 0, dimacsError = 1, dimacsErrorOld = 1\<rparr>
   \<and> ipm_loop ex_collab ex_ctrl ex_locals 0 (ex_state ex_boundary) =
     (Raised (LogicError 1 0), ex_state ex_boundary)"
proof -
  note th = convergence_gate_decides [where numIts = 0 and L = ex_locals and E = ex_collab]
  have a: "ipm_loop ex_collab ex_loose ex_locals 0 (ex_state ex_interior) =
     (Returned, \<lparr>iter = ex_interior, infeasError = 0, dimacsError = 1, dimacsErrorOld = 1\<rparr>)"
    using th [where ctrl = ex_loose and st = "ex_state ex_interior"]
    by (simp add: Let_def ex_state_def ex_interior_inside ex_residuals_interior ex_loose_fields)
  have b: "ipm_loop ex_collab ex_ctrl ex_locals 0 (ex_state ex_interior) =
     (Raised (IterationLimit 0),
      \<lparr>iter = ex_interior, infeasError = 0, dimacsError = 1, dimacsErrorOld = 1\<rparr>)"
    using th [where ctrl = ex_ctrl and st = "ex_state ex_interior"]
    by (simp add: Let_def ex_state_def ex_interior_inside ex_residuals_interior ex_ctrl_fields)
  have c: "iteration ex_collab (ex_ctrl\<lparr>maxIts := 5\<rparr>) ex_locals 0 (ex_state ex_interior) =
     newton_step ex_collab (ex_ctrl\<lparr>maxIts := 5\<rparr>) ex_locals
       (compute_residuals ex_locals ex_interior) False
       \<lparr>iter = ex_interior, infeasError = 0, dimacsError = 1, dimacsErrorOld = 1\<rparr>"
    using th [where ctrl = "ex_ctrl\<lparr>maxIts := 5\<rparr>" and st = "ex_state ex_interior"]
    by (simp add: Let_def ex_state_def ex_interior_inside ex_residuals_interior ex_ctrl_fields)
  have d: "ipm_loop ex_collab ex_ctrl ex_locals 0 (ex_state ex_boundary) =
     (Raised (LogicError 1 0), ex_state ex_boundary)"
    using th [where ctrl = ex_ctrl and st = "ex_state ex_boundary"]
    by (simp add: Let_def ex_state_def ex_boundary_outside ex_ctrl_fields)
  show ?thesis
    using a b c d by simp
qed

text \<open>
  The claim C1 as stated has no case for the cone check.  In the first pass of the call
  with \<^verbatim>\<open>maxIts = 0\<close> on the sample program, warm-started at the exact solution
  \<open>x = 1, s = 0, z = 1\<close>, the three tolerances are met and the counter equals
  \<^verbatim>\<open>maxIts\<close>, yet the pass does not break and the driver does not return: the logic
  error for one nonpositive entry of \<open>s\<close> is raised.
\<close>

theorem convergence_gate_counterexample:
  "maxIts ex_ctrl = 0
   \<and> (let r = compute_residuals ex_locals ex_boundary
      in max (max (rbConv r) (rcConv r)) (rhConv r) \<le> infeasibilityTol ex_ctrl
         \<and> relCompGap r \<le> relativeComplementarityGapTol ex_ctrl
         \<and> relObjGap r \<le> relativeObjectiveGapTol ex_ctrl)
   \<and> iteration ex_collab ex_ctrl ex_locals 0 (ex_state ex_boundary) =
       (Raise (LogicError 1 0), ex_state ex_boundary)
   \<and> ipm_loop ex_collab ex_ctrl ex_locals 0 (ex_state ex_boundary) =
       (Raised (LogicError 1 0), ex_state ex_boundary)
   \<and> fst (equilibrate ex_collab ex_ctrl ex_problem ex_boundary) = ex_locals
   \<and> fst (IPM ex_collab ex_ctrl (ex_call ex_boundary)) = Raised (LogicError 1 0)"
proof -
  have i: "iteration ex_collab ex_ctrl ex_locals 0 (ex_state ex_boundary) =
       (Raise (LogicError 1 0), ex_state ex_boundary)"
    by (simp add: iteration_def Let_def ex_state_def ex_boundary_outside)
  then have l: "ipm_loop ex_collab ex_ctrl ex_locals 0 (ex_state ex_boundary) =
       (Raised (LogicError 1 0), ex_state ex_boundary)"
    by (simp add: ipm_loop_unfold ex_ctrl_fields)
  then have "fst (IPM ex_collab ex_ctrl (ex_call ex_boundary)) = Raised (LogicError 1 0)"
    by (simp add: IPM_def ex_call_def ex_equilibrate ex_Initialize ex_state_def)
  with i l show ?thesis
    by (simp add: ex_ctrl_fields ex_equilibrate ex_residuals_boundary)
qed

text \<open>
  C2 (as amended).  With \<^verbatim>\<open>maxIts = 0\<close> the call is decided by the iterate that the
  equilibration and the initializer hand to the loop (the warm start when both
  initialization flags are set), with one computation of the residuals and gaps and no
  Newton step: if some entry of its \<open>s\<close> or \<open>z\<close> is nonpositive, the logic error of the
  cone check is raised; otherwise the call returns, the iterate unscaled if the
  equilibration was on, exactly when the three tolerances are met, and raises the
  iteration-limit error naming the limit 0 when they are not.  The result does not
  depend on the assembly, the factorization or the solves.
\<close>

theorem maxIts_zero:
  "maxIts ctrl = 0 \<Longrightarrow>
   (case equilibrate E ctrl (pre cs) (its cs) of
      (L, D, it0) \<Rightarrow>
        let it1 = Initialize E (prob L) it0
                    (primalInit ctrl) (dualInit ctrl) (standardInitShift ctrl);
            r = compute_residuals L it1;
            met = (max (max (rbConv r) (rcConv r)) (rhConv r) \<le> infeasibilityTol ctrl
                   \<and> relCompGap r \<le> relativeComplementarityGapTol ctrl
                   \<and> relObjGap r \<le> relativeObjectiveGapTol ctrl)
        in IPM E ctrl cs =
             (if 0 < NumOutside (svec it1) \<or> 0 < NumOutside (zvec it1)
              then (Raised (LogicError (NumOutside (svec it1)) (NumOutside (zvec it1))),
                    cs\<lparr>its := it1\<rparr>)
              else if met
              then (Returned, cs\<lparr>its := (if outerEquil ctrl then unscale D it1 else it1)\<rparr>)
              else (Raised (IterationLimit 0), cs\<lparr>its := it1\<rparr>)))"
proof -
  assume m: "maxIts ctrl = 0"
  obtain L D it0 where eq: "equilibrate E ctrl (pre cs) (its cs) = (L, D, it0)"
    by (cases "equilibrate E ctrl (pre cs) (its cs)") auto
  have it: "iteration E ctrl L 0 st = (let s = svec (iter st); z = zvec (iter st);
          r = compute_residuals L (iter st);
          infeas = max (max (rbConv r) (rcConv r)) (rhConv r);
          st' = st\<lparr>dimacsErrorOld := dimacsError st, infeasError := infeas,
                   dimacsError := max infeas (maxRelGap r)\<rparr>
      in if 0 < NumOutside s \<or> 0 < NumOutside z
         then (Raise (LogicError (NumOutside s) (NumOutside z)), st)
         else if infeas \<le> infeasibilityTol ctrl
                 \<and> relCompGap r \<le> relativeComplementarityGapTol ctrl
                 \<and> relObjGap r \<le> relativeObjectiveGapTol ctrl
         then (Break, st')
         else (Raise (IterationLimit (maxIts ctrl)), st'))" for st
    using iteration_last_pass [of E ctrl L st] m by simp
  show ?thesis
    using m by (simp add: eq IPM_def ipm_loop_unfold it Let_def)
qed

theorem maxIts_zero_witness:
  "IPM ex_collab ex_loose (ex_call ex_interior) = (Returned, ex_call ex_interior)
   \<and> IPM ex_collab ex_ctrl (ex_call ex_interior) = (Raised (IterationLimit 0), ex_call ex_interior)"
  using maxIts_zero [where ctrl = ex_loose and E = ex_collab and cs = "ex_call ex_interior"]
    maxIts_zero [where ctrl = ex_ctrl and E = ex_collab and cs = "ex_call ex_interior"]
  by (simp add: ex_call_def ex_equilibrate ex_equilibrate_loose ex_Initialize Let_def
      ex_interior_inside ex_residuals_interior ex_loose_fields ex_ctrl_fields)

text \<open>
  The claim C2 as stated has no case for the cone check.  For the sample program the
  exact solution \<open>x = 1, s = 0, z = 1\<close> meets every tolerance (all residuals and gaps
  are zero), yet with \<^verbatim>\<open>maxIts = 0\<close> the call with this warm start neither returns nor
  raises the iteration-limit error: it raises the logic error for one nonpositive
  entry of \<open>s\<close>.
\<close>

theorem maxIts_zero_counterexample:
  "maxIts ex_ctrl = 0
   \<and> fst (equilibrate ex_collab ex_ctrl ex_problem ex_boundary) = ex_locals
   \<and> (let r = compute_residuals ex_locals ex_boundary
      in max (max (rbConv r) (rcConv r)) (rhConv r) \<le> infeasibilityTol ex_ctrl
         \<and> relCompGap r \<le> relativeComplementarityGapTol ex_ctrl
         \<and> relObjGap r \<le> relativeObjectiveGapTol ex_ctrl)
   \<and> IPM ex_collab ex_ctrl (ex_call ex_boundary) = (Raised (LogicError 1 0), ex_call ex_boundary)"
proof -
  have "ipm_loop ex_collab ex_ctrl ex_locals 0 (ex_state ex_boundary) =
     (Raised (LogicError 1 0), ex_state ex_boundary)"
    by (simp add: ipm_loop_unfold ex_ctrl_fields iteration_def Let_def ex_state_def
        ex_boundary_outside)
  then have "IPM ex_collab ex_ctrl (ex_call ex_boundary)
      = (Raised (LogicError 1 0), ex_call ex_boundary)"
    by (simp add: IPM_def ex_call_def ex_equilibrate ex_Initialize ex_state_def)
  then show ?thesis
    by (simp add: ex_ctrl_fields ex_equilibrate ex_residuals_boundary)
qed

text \<open>
  C3.  For all real primal objective, dual objective and duality product, the relative
  complementarity gap is the product over the negated primal objective when the primal
  objective is negative; otherwise the product over the dual objective when the dual
  objective is positive; otherwise exactly 2.  Neither quotient divides by zero.
\<close>

theorem RelativeComplementarityGap_cases:
  "(pObj < 0 \<longrightarrow>
      RelativeComplementarityGap pObj dObj dProd = dProd / (- pObj)
      \<and> - pObj \<noteq> 0)
   \<and> (\<not> pObj < 0 \<and> dObj > 0 \<longrightarrow>
      RelativeComplementarityGap pObj dObj dProd = dProd / dObj
      \<and> dObj \<noteq> 0)
   \<and> (\<not> pObj < 0 \<and> \<not> dObj > 0 \<longrightarrow>
      RelativeComplementarityGap pObj dObj dProd = 2)"
  by (simp add: RelativeComplementarityGap_def)

theorem RelativeComplementarityGap_cases_witness:
  "RelativeComplementarityGap (- 4) 1 2 = 1 / 2
   \<and> RelativeComplementarityGap 3 4 2 = 1 / 2
   \<and> RelativeComplementarityGap 0 0 5 = 2"
  using RelativeComplementarityGap_cases [of "- 4" 1 2]
    RelativeComplementarityGap_cases [of 3 4 2]
    RelativeComplementarityGap_cases [of 0 0 5]
  by simp

text \<open>
  C4.  The final step lengths of a pass are \<open>min (\<eta> \<alpha>\<^sub>m\<^sub>a\<^sub>x(s, \<Delta>s, 1/\<eta>)) 1\<close> for the primal
  and \<open>min (\<eta> \<alpha>\<^sub>m\<^sub>a\<^sub>x(z, \<Delta>z, 1/\<eta>)) 1\<close> for the dual step, with \<open>\<eta>\<close> the field
  \<^verbatim>\<open>maxStepRatio\<close>, where \<open>\<alpha>\<^sub>m\<^sub>a\<^sub>x(v, \<Delta>v, \<alpha>)\<close> is the least of \<open>\<alpha>\<close> and the quotients
  \<open>- v\<^sub>i / \<Delta>v\<^sub>i\<close> over the indices with \<open>\<Delta>v\<^sub>i < 0\<close>; both are replaced by their minimum
  when \<^verbatim>\<open>forceSameStep\<close> is set.  Where no entry of the direction is negative, the
  largest step is the bound \<open>1/\<eta>\<close> itself.  In every pass that goes on to the next one,
  the iterates were moved by these two step lengths along the combined directions.
\<close>

theorem final_step_lengths:
  "step_lengths ctrl s ds z dz =
     (let eta = maxStepRatio ctrl;
          alpha_max = (\<lambda>v dv bound.
            Min (insert bound {- v ! i / dv ! i | i. i < length v \<and> i < length dv \<and> dv ! i < 0}));
          alpha_p = min (eta * alpha_max s ds (1 / eta)) 1;
          alpha_d = min (eta * alpha_max z dz (1 / eta)) 1
      in if forceSameStep ctrl then (min alpha_p alpha_d, min alpha_p alpha_d)
         else (alpha_p, alpha_d))
   \<and> ((\<forall>i. i < length s \<and> i < length ds \<longrightarrow> \<not> ds ! i < 0) \<longrightarrow>
        MaxStep s ds (1 / maxStepRatio ctrl) = 1 / maxStepRatio ctrl)
   \<and> ((\<forall>i. i < length z \<and> i < length dz \<longrightarrow> \<not> dz ! i < 0) \<longrightarrow>
        MaxStep z dz (1 / maxStepRatio ctrl) = 1 / maxStepRatio ctrl)
   \<and> (newton_step E ctrl L r met st = (Continue, st') \<longrightarrow>
        (\<exists>dx' dy' dz' ds'.
           iter st' = update_iterates
             (fst (step_lengths ctrl (svec (iter st)) ds' (zvec (iter st)) dz'))
             (snd (step_lengths ctrl (svec (iter st)) ds' (zvec (iter st)) dz'))
             dx' dy' dz' ds' (iter st)))"
proof (intro conjI impI)
  show "step_lengths ctrl s ds z dz =
     (let eta = maxStepRatio ctrl;
          alpha_max = (\<lambda>v dv bound.
            Min (insert bound {- v ! i / dv ! i | i. i < length v \<and> i < length dv \<and> dv ! i < 0}));
          alpha_p = min (eta * alpha_max s ds (1 / eta)) 1;
          alpha_d = min (eta * alpha_max z dz (1 / eta)) 1
      in if forceSameStep ctrl then (min alpha_p alpha_d, min alpha_p alpha_d)
         else (alpha_p, alpha_d))"
    unfolding step_lengths_def Let_def MaxStep_Min ..
next
  assume "newton_step E ctrl L r met st = (Continue, st')"
  from newton_step_Continue [OF this] obtain dx' dy' dz' ds' where
    "st' = st\<lparr>iter := update_iterates
                  (fst (step_lengths ctrl (svec (iter st)) ds' (zvec (iter st)) dz'))
                  (snd (step_lengths ctrl (svec (iter st)) ds' (zvec (iter st)) dz'))
                  dx' dy' dz' ds' (iter st)\<rparr>"
    by blast
  then have "iter st' = update_iterates
             (fst (step_lengths ctrl (svec (iter st)) ds' (zvec (iter st)) dz'))
             (snd (step_lengths ctrl (svec (iter st)) ds' (zvec (iter st)) dz'))
             dx' dy' dz' ds' (iter st)"
    by simp
  then show "\<exists>dx' dy' dz' ds'.
           iter st' = update_iterates
             (fst (step_lengths ctrl (svec (iter st)) ds' (zvec (iter st)) dz'))
             (snd (step_lengths ctrl (svec (iter st)) ds' (zvec (iter st)) dz'))
             dx' dy' dz' ds' (iter st)"
    by blast
qed (rule MaxStep_no_negative, assumption)+

theorem final_step_lengths_witness:
  "step_lengths ex_ctrl [1, 2] [- 2, 1] [1, 1] [- 1, - 4] = (99 / 200, 99 / 400)
   \<and> step_lengths (ex_ctrl\<lparr>forceSameStep := True\<rparr>) [1, 2] [- 2, 1] [1, 1] [- 1, - 4]
       = (99 / 400, 99 / 400)
   \<and> MaxStep [1, 1] [3, 0] (1 / maxStepRatio ex_ctrl) = 100 / 99
   \<and> newton_step ex_solver (ex_ctrl\<lparr>maxIts := 5\<rparr>) ex_locals
       (compute_residuals ex_locals ex_interior) False
       \<lparr>iter = ex_interior, infeasError = 0, dimacsError = 1, dimacsErrorOld = 1\<rparr> =
     (Continue,
      \<lparr>iter = update_iterates (99 / 100) 1 [0] [] [0] [- (1 / 2)] ex_interior,
       infeasError = 0, dimacsError = 1, dimacsErrorOld = 1\<rparr>)"
proof -
  note th = final_step_lengths [where E = ex_solver and L = ex_locals
      and r = "compute_residuals ex_locals ex_interior"
      and met = False and st = "ex_state ex_interior" and st' = "ex_state ex_interior"]
  have a: "step_lengths ex_ctrl [1, 2] [- 2, 1] [1, 1] [- 1, - 4] = (99 / 200, 99 / 400)"
    using th [of ex_ctrl "[1, 2]" "[- 2, 1]" "[1, 1]" "[- 1, - 4]"]
    unfolding Let_def ex_ratio_sets by (simp add: ex_ctrl_fields)
  have b: "step_lengths (ex_ctrl\<lparr>forceSameStep := True\<rparr>) [1, 2] [- 2, 1] [1, 1] [- 1, - 4]
       = (99 / 400, 99 / 400)"
    using th [of "ex_ctrl\<lparr>forceSameStep := True\<rparr>" "[1, 2]" "[- 2, 1]"
        "[1, 1]" "[- 1, - 4]"]
    unfolding Let_def ex_ratio_sets by (simp add: ex_ctrl_fields)
  have c: "MaxStep [1, 1] [3, 0] (1 / maxStepRatio ex_ctrl) = 100 / 99"
    using th [of ex_ctrl "[1, 1]" "[3, 0]" "[1, 1]" "[- 1, - 4]"]
    by (simp add: ex_ctrl_fields less_Suc_eq numeral_2_eq_2 all_conj_distrib)
  have d: "update_iterates (99 / 100) 1 [0] [] [0] [- (1 / 2)] ex_interior
      = \<lparr>xvec = [1 / 2], yvec = [], zvec = [1], svec = [1 / 200]\<rparr>"
    by (simp add: update_iterates_def ex_interior_def Axpy_def)
  show ?thesis
    using a b c ex_newton_step by (simp add: d)
qed

text \<open>
  C5.  At the top of a pass, if \<open>s\<close> or \<open>z\<close> has a nonpositive entry, the loop ends
  with the logic error that carries the number of nonpositive entries of \<open>s\<close> and of
  \<open>z\<close>, and the state is the one the pass started with; if neither has one, both
  counts are zero and the pass does not raise that error.  Whenever a call of the
  driver ends with the logic error, the iterates handed back are the very ones that
  failed the check, and the counts are theirs.
\<close>

theorem cone_check_raises:
  "(numIts \<le> maxIts ctrl
      \<and> ((\<exists>e\<in>set (svec (iter st)). e \<le> 0) \<or> (\<exists>e\<in>set (zvec (iter st)). e \<le> 0)) \<longrightarrow>
      ipm_loop E ctrl L numIts st =
        (Raised (LogicError (NumOutside (svec (iter st))) (NumOutside (zvec (iter st)))), st))
   \<and> (\<not> ((\<exists>e\<in>set (svec (iter st)). e \<le> 0) \<or> (\<exists>e\<in>set (zvec (iter st)). e \<le> 0)) \<longrightarrow>
      NumOutside (svec (iter st)) = 0 \<and> NumOutside (zvec (iter st)) = 0
      \<and> (\<forall>a b. fst (iteration E ctrl L numIts st) \<noteq> Raise (LogicError a b)))
   \<and> (\<forall>a b cs'. IPM E ctrl cs = (Raised (LogicError a b), cs') \<longrightarrow>
        a = NumOutside (svec (its cs')) \<and> b = NumOutside (zvec (its cs'))
        \<and> (0 < a \<or> 0 < b))"
proof (intro conjI impI allI)
  assume a: "numIts \<le> maxIts ctrl
      \<and> ((\<exists>e\<in>set (svec (iter st)). e \<le> 0) \<or> (\<exists>e\<in>set (zvec (iter st)). e \<le> 0))"
  then have "0 < NumOutside (svec (iter st)) \<or> 0 < NumOutside (zvec (iter st))"
    by (simp add: NumOutside_pos_iff)
  then have "iteration E ctrl L numIts st =
      (Raise (LogicError (NumOutside (svec (iter st))) (NumOutside (zvec (iter st)))), st)"
    by (auto simp: iteration_def Let_def)
  with a show "ipm_loop E ctrl L numIts st =
        (Raised (LogicError (NumOutside (svec (iter st))) (NumOutside (zvec (iter st)))), st)"
    by (simp add: ipm_loop_Raise)
next
  assume n: "\<not> ((\<exists>e\<in>set (svec (iter st)). e \<le> 0) \<or> (\<exists>e\<in>set (zvec (iter st)). e \<le> 0))"
  then have z: "\<not> 0 < NumOutside (svec (iter st))" "\<not> 0 < NumOutside (zvec (iter st))"
    by (simp_all add: NumOutside_pos_iff)
  from z show "NumOutside (svec (iter st)) = 0" by simp
  from z show "NumOutside (zvec (iter st)) = 0" by simp
  fix a b
  show "fst (iteration E ctrl L numIts st) \<noteq> Raise (LogicError a b)"
  proof
    assume "fst (iteration E ctrl L numIts st) = Raise (LogicError a b)"
    then have "iteration E ctrl L numIts st = (Raise (LogicError a b), snd (iteration E ctrl L numIts st))"
      by (simp add: prod_eq_iff)
    from iteration_LogicError [OF this] z show False by auto
  qed
next
  fix a b cs'
  assume "IPM E ctrl cs = (Raised (LogicError a b), cs')"
  from IPM_LogicError [OF this]
  show "a = NumOutside (svec (its cs'))" "b = NumOutside (zvec (its cs'))" "0 < a \<or> 0 < b"
    by blast+
qed

theorem cone_check_raises_witness:
  "ipm_loop ex_collab ex_ctrl ex_locals 0 (ex_state ex_boundary) =
     (Raised (LogicError 1 0), ex_state ex_boundary)
   \<and> fst (iteration ex_collab ex_ctrl ex_locals 0 (ex_state ex_interior)) \<noteq> Raise (LogicError 1 0)
   \<and> IPM ex_collab ex_ctrl (ex_call ex_boundary) = (Raised (LogicError 1 0), ex_call ex_boundary)"
proof -
  note th = cone_check_raises [where numIts = 0 and ctrl = ex_ctrl and E = ex_collab
      and L = ex_locals and cs = "ex_call ex_boundary"]
  have l: "ipm_loop ex_collab ex_ctrl ex_locals 0 (ex_state ex_boundary) =
     (Raised (LogicError 1 0), ex_state ex_boundary)"
    using th [where st = "ex_state ex_boundary"]
    by (simp add: ex_state_def ex_boundary_def ex_ctrl_fields NumOutside_def)
  have i: "fst (iteration ex_collab ex_ctrl ex_locals 0 (ex_state ex_interior))
      \<noteq> Raise (LogicError 1 0)"
    using th [where st = "ex_state ex_interior"]
    by (simp add: ex_state_def ex_interior_def NumOutside_def)
  have c: "IPM ex_collab ex_ctrl (ex_call ex_boundary)
      = (Raised (LogicError 1 0), ex_call ex_boundary)"
    using l by (simp add: IPM_def ex_call_def ex_equilibrate ex_Initialize ex_state_def)
  show ?thesis
    using l i c by simp
qed

text \<open>
  C6.  In the sparse driver the vector \<^verbatim>\<open>regLarge\<close> has \<open>n + m + k\<close> entries: the field
  \<^verbatim>\<open>xRegLarge\<close> in the first \<open>n\<close>, minus \<^verbatim>\<open>yRegLarge\<close> in the next \<open>m\<close>, minus
  \<^verbatim>\<open>zRegLarge\<close> in the last \<open>k\<close>, each multiplied by the norm estimate of the driver,
  which is the sum of the two-norm estimates of \<open>A\<close>, \<open>G\<close> and \<open>Q\<close> plus one.  In a pass,
  \<open>JOrig\<close> is the completed KKT matrix, and \<open>J\<close> has the same dimensions and the same
  entries but for the diagonal, where the entry of \<^verbatim>\<open>regLarge\<close> is added.  The
  factorization is computed from \<open>J\<close>; both refined solves are given \<open>JOrig\<close>, together
  with \<^verbatim>\<open>regLarge\<close>.
\<close>

theorem large_regularization:
  "length (regLarge_init ctrl n m k (origTwoNormEst SE ctrl Q A G)) = n + m + k
   \<and> (i < n + m + k \<longrightarrow>
        regLarge_init ctrl n m k (origTwoNormEst SE ctrl Q A G) ! i =
          (if i < n then xRegLarge ctrl
           else if i < n + m then - yRegLarge ctrl
           else - zRegLarge ctrl)
          * (TwoNormEstimate SE A (twoNormKrylovBasisSize ctrl)
             + TwoNormEstimate SE G (twoNormKrylovBasisSize ctrl)
             + HermitianTwoNormEstimate SE Q (twoNormKrylovBasisSize ctrl) + 1))
   \<and> (case sparse_kkt SE m n s z JStatic regLarge of
        (JOrig, J) \<Rightarrow>
          JOrig = FinishKKT SE m n s z JStatic
          \<and> sHeight J = sHeight JOrig \<and> sWidth J = sWidth JOrig
          \<and> (\<forall>a b. sEntry J a b =
                sEntry JOrig a b + (if a = b \<and> a < length regLarge then regLarge ! a else 0)))
   \<and> sparse_affine_solve SE ctrl numIts m n k JStatic regLarge F s z d met =
       (let JOrig = fst (sparse_kkt SE m n s z JStatic regLarge);
            J = snd (sparse_kkt SE m n s z JStatic regLarge);
            fact = Factor SE (if numIts = 0 \<and> primalInit ctrl \<and> dualInit ctrl
                              then LDLInitialize SE J True
                              else ChangeNonzeroValues SE F J);
            first = (if twoStage ctrl
                     then reg_ldl_SolveAfter SE JOrig regLarge (Ones (n + m + k)) fact d
                            (solveCtrl ctrl)
                     else (False, d))
        in if fst first then Inr (fact, snd first)
           else (let second = reg_ldl_RegularizedSolveAfter SE JOrig regLarge
                                (Ones (n + m + k)) fact (snd first)
                                (relTol (solveCtrl ctrl)) (maxRefineIts (solveCtrl ctrl))
                                (progress (solveCtrl ctrl))
                 in if fst second then Inr (fact, snd second)
                    else if met then Inl Break
                    else Inl (Raise CouldNotAchieveTolerances)))"
proof (intro conjI impI)
  show "length (regLarge_init ctrl n m k (origTwoNormEst SE ctrl Q A G)) = n + m + k"
    by (rule regLarge_init_length)
next
  assume "i < n + m + k"
  then show "regLarge_init ctrl n m k (origTwoNormEst SE ctrl Q A G) ! i =
          (if i < n then xRegLarge ctrl
           else if i < n + m then - yRegLarge ctrl
           else - zRegLarge ctrl)
          * (TwoNormEstimate SE A (twoNormKrylovBasisSize ctrl)
             + TwoNormEstimate SE G (twoNormKrylovBasisSize ctrl)
             + HermitianTwoNormEstimate SE Q (twoNormKrylovBasisSize ctrl) + 1)"
    by (simp add: regLarge_init_nth origTwoNormEst_def Let_def)
next
  show "case sparse_kkt SE m n s z JStatic regLarge of
        (JOrig, J) \<Rightarrow>
          JOrig = FinishKKT SE m n s z JStatic
          \<and> sHeight J = sHeight JOrig \<and> sWidth J = sWidth JOrig
          \<and> (\<forall>a b. sEntry J a b =
                sEntry JOrig a b + (if a = b \<and> a < length regLarge then regLarge ! a else 0))"
    by (simp add: sparse_kkt_def UpdateDiagonal_def Let_def)
next
  show "sparse_affine_solve SE ctrl numIts m n k JStatic regLarge F s z d met =
       (let JOrig = fst (sparse_kkt SE m n s z JStatic regLarge);
            J = snd (sparse_kkt SE m n s z JStatic regLarge);
            fact = Factor SE (if numIts = 0 \<and> primalInit ctrl \<and> dualInit ctrl
                              then LDLInitialize SE J True
                              else ChangeNonzeroValues SE F J);
            first = (if twoStage ctrl
                     then reg_ldl_SolveAfter SE JOrig regLarge (Ones (n + m + k)) fact d
                            (solveCtrl ctrl)
                     else (False, d))
        in if fst first then Inr (fact, snd first)
           else (let second = reg_ldl_RegularizedSolveAfter SE JOrig regLarge
                                (Ones (n + m + k)) fact (snd first)
                                (relTol (solveCtrl ctrl)) (maxRefineIts (solveCtrl ctrl))
                                (progress (solveCtrl ctrl))
                 in if fst second then Inr (fact, snd second)
                    else if met then Inl Break
                    else Inl (Raise CouldNotAchieveTolerances)))"
    by (simp add: sparse_affine_solve_unfold sparse_kkt_def Let_def)
qed

theorem large_regularization_witness:
  "regLarge_init ex_ctrl 1 1 1 (origTwoNormEst ex_sparse_collab ex_ctrl ex_JStatic ex_JStatic ex_JStatic) ! 0 = 9 / 10 ^ 6
   \<and> regLarge_init ex_ctrl 1 1 1 (origTwoNormEst ex_sparse_collab ex_ctrl ex_JStatic ex_JStatic ex_JStatic) ! 1 = - (9 / 10 ^ 5)
   \<and> regLarge_init ex_ctrl 1 1 1 (origTwoNormEst ex_sparse_collab ex_ctrl ex_JStatic ex_JStatic ex_JStatic) ! 2 = - (9 / 10 ^ 4)
   \<and> sEntry (snd (sparse_kkt ex_sparse_collab 1 1 [1] [1] ex_JStatic [5, - 6, - 7])) 1 1 = - 3
   \<and> sEntry (snd (sparse_kkt ex_sparse_collab 1 1 [1] [1] ex_JStatic [5, - 6, - 7])) 0 1 = 2
   \<and> fst (sparse_kkt ex_sparse_collab 1 1 [1] [1] ex_JStatic [5, - 6, - 7]) = ex_JStatic"
proof -
  note th = large_regularization [where ctrl = ex_ctrl and n = 1 and m = 1 and k = 1
      and SE = ex_sparse_collab and Q = ex_JStatic and A = ex_JStatic and G = ex_JStatic
      and s = "[1]" and z = "[1]" and JStatic = ex_JStatic and regLarge = "[5, - 6, - 7]"
      and numIts = 0 and F = ex_JStatic and d = "[]" and met = True]
  have a: "regLarge_init ex_ctrl 1 1 1 (origTwoNormEst ex_sparse_collab ex_ctrl ex_JStatic ex_JStatic ex_JStatic) ! 0 = 9 / 10 ^ 6"
    using th [where i = 0] by (simp add: ex_sparse_fields ex_ctrl_reg)
  have b: "regLarge_init ex_ctrl 1 1 1 (origTwoNormEst ex_sparse_collab ex_ctrl ex_JStatic ex_JStatic ex_JStatic) ! 1 = - (9 / 10 ^ 5)"
    using th [where i = 1] by (simp add: ex_sparse_fields ex_ctrl_reg)
  have c: "regLarge_init ex_ctrl 1 1 1 (origTwoNormEst ex_sparse_collab ex_ctrl ex_JStatic ex_JStatic ex_JStatic) ! 2 = - (9 / 10 ^ 4)"
    using th [where i = 2] by (simp add: ex_sparse_fields ex_ctrl_reg)
  have d: "sEntry (snd (sparse_kkt ex_sparse_collab 1 1 [1] [1] ex_JStatic [5, - 6, - 7])) 1 1 = - 3
     \<and> sEntry (snd (sparse_kkt ex_sparse_collab 1 1 [1] [1] ex_JStatic [5, - 6, - 7])) 0 1 = 2
     \<and> fst (sparse_kkt ex_sparse_collab 1 1 [1] [1] ex_JStatic [5, - 6, - 7]) = ex_JStatic"
  proof -
    obtain JO J where e: "sparse_kkt ex_sparse_collab 1 1 [1] [1] ex_JStatic [5, - 6, - 7] = (JO, J)"
      by (cases "sparse_kkt ex_sparse_collab 1 1 [1] [1] ex_JStatic [5, - 6, - 7]")
    from th [where i = 0] e have "JO = ex_JStatic"
      and "\<forall>a b. sEntry J a b =
        sEntry JO a b + (if a = b \<and> a < length [5, - 6, - 7 :: real] then [5, - 6, - 7] ! a else 0)"
      by (simp_all add: ex_sparse_fields)
    then show ?thesis
      using e by (simp add: ex_JStatic_def)
  qed
  show ?thesis
    using a b c d by simp
qed

text \<open>
  C7.  For vectors of the common length \<open>k\<close>: the complementarity residual is first
  the entrywise product of \<open>s\<close> and \<open>z\<close>; the vector for the combined right-hand side
  has, at every index, that product minus \<open>\<sigma> \<mu>\<close>, plus the product of the affine
  directions \<open>\<Delta>s\<close> and \<open>\<Delta>z\<close> at that index exactly when the \<^verbatim>\<open>mehrotra\<close> flag is set.
  In every pass that goes on to the next one, the second solve was given the
  right-hand side assembled from this vector, built from the directions of the first
  solve and the centrality parameter of the pass.
\<close>

theorem combined_rmu_entries:
  "(length s = k \<and> length z = k \<and> length dsAff = k \<and> length dzAff = k \<and> i < k \<longrightarrow>
      affine_rmu s z ! i = s ! i * z ! i
      \<and> length (combined_rmu ctrl sigma m (affine_rmu s z) dsAff dzAff) = k
      \<and> combined_rmu ctrl sigma m (affine_rmu s z) dsAff dzAff ! i =
          (s ! i * z ! i - sigma * m) + (if mehrotra ctrl then dsAff ! i * dzAff ! i else 0))
   \<and> (newton_step E ctrl L r met st = (Continue, st') \<longrightarrow>
        (\<exists>JF dSub p dAff dxA dyA dzA dsA dComb.
           SolveAfter E JF dSub p
             (KKTRHS E (rc r) (rb r) (rh r)
                (affine_rmu (svec (iter st)) (zvec (iter st))) (zvec (iter st))) = Some dAff
           \<and> ExpandSolution E (dim_m L) (dim_n L) dAff
               (affine_rmu (svec (iter st)) (zvec (iter st)))
               (svec (iter st)) (zvec (iter st)) = (dxA, dyA, dzA, dsA)
           \<and> (let alphaAff = affine_step_lengths ctrl (svec (iter st)) dsA (zvec (iter st)) dzA;
                   sigma' = centralityRule ctrl (mu r)
                     (affine_mu (dim_k L) (svec (iter st)) dsA (zvec (iter st)) dzA
                        (fst alphaAff) (snd alphaAff))
                     (fst alphaAff) (snd alphaAff)
               in SolveAfter E JF dSub p
                    (KKTRHS E (rc r) (rb r) (rh r)
                       (combined_rmu ctrl sigma' (mu r)
                          (affine_rmu (svec (iter st)) (zvec (iter st))) dsA dzA)
                       (zvec (iter st))) = Some dComb)))"
proof (intro conjI impI)
  assume "newton_step E ctrl L r met st = (Continue, st')"
  from newton_step_Continue [OF this]
  show "\<exists>JF dSub p dAff dxA dyA dzA dsA dComb.
           SolveAfter E JF dSub p
             (KKTRHS E (rc r) (rb r) (rh r)
                (affine_rmu (svec (iter st)) (zvec (iter st))) (zvec (iter st))) = Some dAff
           \<and> ExpandSolution E (dim_m L) (dim_n L) dAff
               (affine_rmu (svec (iter st)) (zvec (iter st)))
               (svec (iter st)) (zvec (iter st)) = (dxA, dyA, dzA, dsA)
           \<and> (let alphaAff = affine_step_lengths ctrl (svec (iter st)) dsA (zvec (iter st)) dzA;
                   sigma' = centralityRule ctrl (mu r)
                     (affine_mu (dim_k L) (svec (iter st)) dsA (zvec (iter st)) dzA
                        (fst alphaAff) (snd alphaAff))
                     (fst alphaAff) (snd alphaAff)
               in SolveAfter E JF dSub p
                    (KKTRHS E (rc r) (rb r) (rh r)
                       (combined_rmu ctrl sigma' (mu r)
                          (affine_rmu (svec (iter st)) (zvec (iter st))) dsA dzA)
                       (zvec (iter st))) = Some dComb)"
    unfolding Let_def by blast
qed (simp_all add: affine_rmu_def combined_rmu_def DiagonalScale_def Shift_def Add_def Let_def)

theorem combined_rmu_entries_witness:
  "combined_rmu ex_ctrl (1 / 2) 3 (affine_rmu [1, 2] [3, 4]) [1, - 1] [2, 5] ! 1 = 3 / 2
   \<and> combined_rmu (ex_ctrl\<lparr>mehrotra := False\<rparr>) (1 / 2) 3 (affine_rmu [1, 2] [3, 4])
        [1, - 1] [2, 5] ! 1 = 13 / 2
   \<and> newton_step ex_solver (ex_ctrl\<lparr>maxIts := 5\<rparr>) ex_locals
       (compute_residuals ex_locals ex_interior) False
       \<lparr>iter = ex_interior, infeasError = 0, dimacsError = 1, dimacsErrorOld = 1\<rparr> =
     (Continue,
      \<lparr>iter = \<lparr>xvec = [1 / 2], yvec = [], zvec = [1], svec = [1 / 200]\<rparr>,
       infeasError = 0, dimacsError = 1, dimacsErrorOld = 1\<rparr>)"
  using combined_rmu_entries [where s = "[1, 2]" and z = "[3, 4]" and dsAff = "[1, - 1]"
      and dzAff = "[2, 5]" and k = 2 and i = 1 and ctrl = ex_ctrl and sigma = "1 / 2" and m = 3
      and E = ex_solver and L = ex_locals and r = "compute_residuals ex_locals ex_interior"
      and met = False and st = "ex_state ex_interior" and st' = "ex_state ex_interior"]
    combined_rmu_entries [where s = "[1, 2]" and z = "[3, 4]" and dsAff = "[1, - 1]"
      and dzAff = "[2, 5]" and k = 2 and i = 1 and ctrl = "ex_ctrl\<lparr>mehrotra := False\<rparr>"
      and sigma = "1 / 2" and m = 3
      and E = ex_solver and L = ex_locals and r = "compute_residuals ex_locals ex_interior"
      and met = False and st = "ex_state ex_interior" and st' = "ex_state ex_interior"]
    ex_newton_step
  by (simp add: ex_ctrl_fields)

text \<open>
  C8.  Whatever a call does, the six problem-data objects of the caller are afterwards
  what they were before it: every write of the driver goes to its private copies or to
  the four iterates.  This holds when the call returns and when it raises.
\<close>

theorem caller_data_unchanged:
  "pre (snd (IPM E ctrl cs)) = pre cs
   \<and> snd (IPM E ctrl cs) = cs\<lparr>its := its (snd (IPM E ctrl cs))\<rparr>"
proof -
  obtain L D it0 where eq: "equilibrate E ctrl (pre cs) (its cs) = (L, D, it0)"
    by (cases "equilibrate E ctrl (pre cs) (its cs)") auto
  define st0 where "st0 = \<lparr>iter = Initialize E (prob L) it0
      (primalInit ctrl) (dualInit ctrl) (standardInitShift ctrl),
      infeasError = 1, dimacsError = 1, dimacsErrorOld = 1\<rparr>"
  obtain oc st where lp: "ipm_loop E ctrl L 0 st0 = (oc, st)"
    by (cases "ipm_loop E ctrl L 0 st0")
  show ?thesis
    using eq lp by (cases oc) (simp_all add: IPM_def Let_def st0_def)
qed

theorem caller_data_unchanged_witness:
  "pre (snd (IPM ex_collab ex_loose (ex_call ex_interior))) = ex_problem
   \<and> pre (snd (IPM ex_collab ex_ctrl (ex_call ex_boundary))) = ex_problem"
  using caller_data_unchanged [of ex_collab ex_loose "ex_call ex_interior"]
    caller_data_unchanged [of ex_collab ex_ctrl "ex_call ex_boundary"]
  by (simp add: ex_call_def)

text \<open>
  C9.  The outcome of a call is the outcome of its loop.  When the loop raises an error
  (one of: nonpositive entries, no tolerances after a failed solve or a zero step, the
  iteration limit, an exception of the second solve), the caller's iterates are those
  of the loop at the raise, in the coordinates of the equilibrated problem: the
  unscaling is not applied.  On a normal return with \<^verbatim>\<open>outerEquil\<close> they are the
  unscaled iterates of the loop, and without it the iterates of the loop.
\<close>

theorem error_exit_keeps_scaled_iterates:
  "(case equilibrate E ctrl (pre cs) (its cs) of
      (L, D, it0) \<Rightarrow>
        (case ipm_loop E ctrl L 0
                \<lparr>iter = Initialize E (prob L) it0
                          (primalInit ctrl) (dualInit ctrl) (standardInitShift ctrl),
                 infeasError = 1, dimacsError = 1, dimacsErrorOld = 1\<rparr> of
           (oc, st) \<Rightarrow>
             fst (IPM E ctrl cs) = oc
             \<and> ((\<exists>e. oc = Raised e) \<longrightarrow> its (snd (IPM E ctrl cs)) = iter st)
             \<and> (oc = Returned \<and> outerEquil ctrl \<longrightarrow>
                  its (snd (IPM E ctrl cs)) = unscale D (iter st))
             \<and> (oc = Returned \<and> \<not> outerEquil ctrl \<longrightarrow>
                  its (snd (IPM E ctrl cs)) = iter st)))"
proof -
  obtain L D it0 where eq: "equilibrate E ctrl (pre cs) (its cs) = (L, D, it0)"
    by (cases "equilibrate E ctrl (pre cs) (its cs)") auto
  define st0 where "st0 = \<lparr>iter = Initialize E (prob L) it0
      (primalInit ctrl) (dualInit ctrl) (standardInitShift ctrl),
      infeasError = 1, dimacsError = 1, dimacsErrorOld = 1\<rparr>"
  obtain oc st where lp: "ipm_loop E ctrl L 0 st0 = (oc, st)"
    by (cases "ipm_loop E ctrl L 0 st0")
  show ?thesis
    using eq lp by (cases oc) (simp_all add: IPM_def Let_def st0_def)
qed

theorem error_exit_keeps_scaled_iterates_witness:
  "fst (IPM ex_collab (ex_ctrl\<lparr>outerEquil := True\<rparr>) (ex_call ex_interior))
     = Raised (IterationLimit 0)
   \<and> its (snd (IPM ex_collab (ex_ctrl\<lparr>outerEquil := True\<rparr>) (ex_call ex_interior)))
     = ex_scaled
   \<and> fst (IPM ex_collab (ex_loose\<lparr>outerEquil := True\<rparr>) (ex_call ex_interior)) = Returned
   \<and> its (snd (IPM ex_collab (ex_loose\<lparr>outerEquil := True\<rparr>) (ex_call ex_interior)))
     = ex_interior"
proof -
  have A: "fst (IPM ex_collab (ex_ctrl\<lparr>outerEquil := True\<rparr>) (ex_call ex_interior))
       = Raised (IterationLimit 0)
     \<and> its (snd (IPM ex_collab (ex_ctrl\<lparr>outerEquil := True\<rparr>) (ex_call ex_interior)))
       = ex_scaled"
    using error_exit_keeps_scaled_iterates [where E = ex_collab
        and ctrl = "ex_ctrl\<lparr>outerEquil := True\<rparr>" and cs = "ex_call ex_interior"]
      ex_loop_scaled_tight [unfolded ex_state_def]
    by (simp add: ex_call_def ex_equilibrate_outer ex_ctrl_fields ex_Initialize)
  have B: "fst (IPM ex_collab (ex_loose\<lparr>outerEquil := True\<rparr>) (ex_call ex_interior))
       = Returned
     \<and> its (snd (IPM ex_collab (ex_loose\<lparr>outerEquil := True\<rparr>) (ex_call ex_interior)))
       = unscale \<lparr>dRowA = [], dRowG = [2], dCol = [2]\<rparr> ex_scaled"
    using error_exit_keeps_scaled_iterates [where E = ex_collab
        and ctrl = "ex_loose\<lparr>outerEquil := True\<rparr>" and cs = "ex_call ex_interior"]
      ex_loop_scaled_loose [unfolded ex_state_def]
    by (simp add: ex_call_def ex_equilibrate_outer ex_loose_fields ex_Initialize)
  have U: "unscale \<lparr>dRowA = [], dRowG = [2], dCol = [2]\<rparr> ex_scaled = ex_interior"
    by (simp add: unscale_def ex_scaled_def ex_interior_def DiagonalSolve_def DiagonalScale_def)
  show ?thesis
    using A B U by simp
qed

end
